theory Spec2Isabelle
  imports Main
begin

section \<open>JavaScript values and strings\<close>

text \<open>
  The server (\<^verbatim>\<open>src/server.js\<close>) keeps one call session in module-level variables and
  reacts to Socket.IO events from the browser and to webhook posts from the provider.
  Webhook bodies are parsed JSON, so the values the handlers read are modelled as a
  datatype of JSON values extended with \<^verbatim>\<open>undefined\<close>. Numbers are integers here: the
  handlers only test them for truthiness and for being greater than zero. Strings are lists
  of 8-bit characters (session descriptions are ASCII text).
\<close>

datatype json =
    JUndef
  | JNull
  | JBool bool
  | JNum int
  | JStr string
  | JArr "json list"
  | JObj "(string \<times> json) list"

datatype error = TypeError | ReferenceError

text \<open>JavaScript truthiness: \<^verbatim>\<open>!v\<close> is \<open>\<not> truthy v\<close>.\<close>

fun truthy :: "json \<Rightarrow> bool" where
  "truthy JUndef = False"
| "truthy JNull = False"
| "truthy (JBool b) = b"
| "truthy (JNum n) = (n \<noteq> 0)"
| "truthy (JStr s) = (s \<noteq> [])"
| "truthy (JArr xs) = True"
| "truthy (JObj kvs) = True"

fun nullish :: "json \<Rightarrow> bool" where
  "nullish JUndef = True"
| "nullish JNull = True"
| "nullish v = False"

text \<open>
  Reading property \<open>k\<close> of a value that is neither \<^verbatim>\<open>null\<close> nor \<^verbatim>\<open>undefined\<close>. The
  handlers read named fields, \<^verbatim>\<open>length\<close> and index \<^verbatim>\<open>0\<close> only; an object is the
  association list of its own keys (unique after parsing), an array or string answers
  \<^verbatim>\<open>length\<close> and \<^verbatim>\<open>0\<close>, anything else has none of the fields read.
\<close>

fun lookup :: "json \<Rightarrow> string \<Rightarrow> json" where
  "lookup (JObj kvs) k = (case map_of kvs k of None \<Rightarrow> JUndef | Some v \<Rightarrow> v)"
| "lookup (JArr xs) k =
     (if k = ''length'' then JNum (int (length xs))
      else if k = ''0'' then (case xs of [] \<Rightarrow> JUndef | x # _ \<Rightarrow> x)
      else JUndef)"
| "lookup (JStr s) k =
     (if k = ''length'' then JNum (int (length s))
      else if k = ''0'' then (case s of [] \<Rightarrow> JUndef | c # _ \<Rightarrow> JStr [c])
      else JUndef)"
| "lookup v k = JUndef"

text \<open>
  \<^verbatim>\<open>v.k\<close> throws a TypeError on \<^verbatim>\<open>null\<close> and \<^verbatim>\<open>undefined\<close> (the handlers below test
  \<open>nullish\<close> where the source reads a field without \<^verbatim>\<open>?.\<close>); \<^verbatim>\<open>v?.k\<close> yields
  \<^verbatim>\<open>undefined\<close> there.
\<close>

definition opt_prop :: "json \<Rightarrow> string \<Rightarrow> json" where
  "opt_prop v k = (if nullish v then JUndef else lookup v k)"

text \<open>\<^verbatim>\<open>a || b\<close>\<close>

definition js_or :: "json \<Rightarrow> json \<Rightarrow> json" where
  "js_or a b = (if truthy a then a else b)"

text \<open>
  \<^verbatim>\<open>v > 0\<close>. On \<^verbatim>\<open>undefined\<close>, \<^verbatim>\<open>null\<close>, booleans and numbers the comparison is
  fixed; on strings, arrays and objects JavaScript first coerces the operand to a number,
  which is left to the parameter \<open>coerce\<close>.
\<close>

fun gt0 :: "(json \<Rightarrow> bool) \<Rightarrow> json \<Rightarrow> bool" where
  "gt0 coerce JUndef = False"
| "gt0 coerce JNull = False"
| "gt0 coerce (JBool b) = b"
| "gt0 coerce (JNum n) = (0 < n)"
| "gt0 coerce v = coerce v"

subsection \<open>String operations used on session descriptions\<close>

fun startsWith :: "string \<Rightarrow> string \<Rightarrow> bool" where
  "startsWith s [] = True"
| "startsWith [] (p # ps) = False"
| "startsWith (c # cs) (p # ps) = (c = p \<and> startsWith cs ps)"

text \<open>\<^verbatim>\<open>s.includes(pat)\<close>\<close>

fun str_includes :: "string \<Rightarrow> string \<Rightarrow> bool" where
  "str_includes [] pat = (pat = [])"
| "str_includes (c # cs) pat = (startsWith (c # cs) pat \<or> str_includes cs pat)"

text \<open>
  \<^verbatim>\<open>s.replace(pat, rep)\<close> with a string pattern: only the first occurrence is replaced
  (the replacement strings of the source contain no \<^verbatim>\<open>$\<close>).
\<close>

fun replace_str :: "string \<Rightarrow> string \<Rightarrow> string \<Rightarrow> string" where
  "replace_str [] pat rep = (if pat = [] then rep else [])"
| "replace_str (c # cs) pat rep =
     (if startsWith (c # cs) pat then rep @ drop (length pat) (c # cs)
      else c # replace_str cs pat rep)"

text \<open>The characters a regular expression's \<^verbatim>\<open>.\<close> does not match: line feed and carriage return.\<close>

definition lineTerminator :: "char \<Rightarrow> bool" where
  "lineTerminator c = (c = CHR 0x0A \<or> c = CHR 0x0D)"

definition crlf :: string where
  "crlf = [CHR 0x0D, CHR 0x0A]"

text \<open>
  \<^verbatim>\<open>s.replace(/(a=fingerprint:.*)/g, '$1\r\na=setup:actpass')\<close>: every match starts at an
  occurrence of \<^verbatim>\<open>a=fingerprint:\<close>, runs to the end of the line, and is followed in the
  result by a line break and the attribute; scanning resumes after the match.
\<close>

function replace_fingerprint :: "string \<Rightarrow> string" where
  "replace_fingerprint [] = []"
| "replace_fingerprint (c # cs) =
     (if startsWith (c # cs) ''a=fingerprint:''
      then takeWhile (\<lambda>x. \<not> lineTerminator x) (c # cs) @ crlf @ ''a=setup:actpass''
           @ replace_fingerprint (dropWhile (\<lambda>x. \<not> lineTerminator x) (c # cs))
      else c # replace_fingerprint cs)"
  by pat_completeness auto
termination
proof (relation "measure length")
  show "wf (measure length)" by simp
next
  fix c :: char and cs :: string
  assume "startsWith (c # cs) ''a=fingerprint:''"
  then have "\<not> lineTerminator c" by (simp add: lineTerminator_def)
  then have "dropWhile (\<lambda>x. \<not> lineTerminator x) (c # cs) = dropWhile (\<lambda>x. \<not> lineTerminator x) cs"
    by simp
  moreover have "length (dropWhile (\<lambda>x. \<not> lineTerminator x) cs) \<le> length cs"
    by (rule length_dropWhile_le)
  ultimately show "(dropWhile (\<lambda>x. \<not> lineTerminator x) (c # cs), c # cs) \<in> measure length"
    by simp
next
  fix c :: char and cs :: string
  show "(cs, c # cs) \<in> measure length" by simp
qed

text \<open>
  The offer normalisation of \<^verbatim>\<open>initiateWebRTCBridge\<close> (variable \<^verbatim>\<open>modifiedWhatsappSdp\<close>):
  the provider's offer is kept when it already includes \<^verbatim>\<open>a=setup:actpass\<close>, otherwise the
  attribute is added after each fingerprint line.
\<close>

definition modifiedWhatsappSdp :: "string \<Rightarrow> string" where
  "modifiedWhatsappSdp sdp =
     (if \<not> str_includes sdp ''a=setup:actpass'' then replace_fingerprint sdp else sdp)"

text \<open>
  The answer formatting of \<^verbatim>\<open>initiateWebRTCBridge\<close> (variable \<^verbatim>\<open>finalWaSdp\<close>).
\<close>

definition finalWaSdp :: "string \<Rightarrow> string" where
  "finalWaSdp sdp =
     (let s1 = replace_str sdp ''a=setup:actpass'' ''a=setup:active''
      in if \<not> str_includes s1 ''a=ice-options:trickle''
         then replace_str s1 ''a=group:BUNDLE 0'' (''a=group:BUNDLE 0'' @ crlf @ ''a=ice-options:trickle'')
         else s1)"


section \<open>The call session\<close>

text \<open>
  A peer connection (one leg) as far as the server drives it: the descriptions applied to
  it, the tracks added to it for sending, and whether \<^verbatim>\<open>close()\<close> has been called on it.
  A media stream is the list of its tracks.
\<close>

type_synonym socket = string

datatype kind = Audio | Video

type_synonym track = "string \<times> kind"

record peer =
  remoteDescription :: json
  localDescription :: json
  senders :: "track list"
  closed :: bool

definition RTCPeerConnection :: peer where
  "RTCPeerConnection =
     \<lparr>remoteDescription = JNull, localDescription = JNull, senders = [], closed = False\<rparr>"

definition getAudioTracks :: "track list \<Rightarrow> track list" where
  "getAudioTracks ts = filter (\<lambda>t. snd t = Audio) ts"

text \<open>
  What the server does to the outside, in order: events emitted to one socket or to all
  sockets, requests to the provider's call-control API, the HTTP status sent for a webhook,
  timers started, error lines written to the console by the bridge, and an error that
  leaves an event handler uncaught. Both the permission probe and the placing of an
  outbound call post the action \<^verbatim>\<open>connect\<close>; \<open>purpose\<close> records which function posted it.
\<close>

datatype purpose = Probe | Place

datatype timer = AcceptTimer string | ClearOffers | AutoCall json json

datatype out =
    Emit socket string "json list"
  | Broadcast string "json list"
  | ApiAnswer json string string
  | ApiTerminate json
  | ApiConnect purpose string
  | ApiPermissionRequest string
  | Respond nat
  | SetTimeout timer nat
  | ConsoleError string
  | Unhandled error

text \<open>The module-level variables of \<^verbatim>\<open>server.js\<close> (lines 33 to 41), and the trace of effects.\<close>

record state =
  browserPc :: "peer option"
  browserStream :: "track list option"
  whatsappPc :: "peer option"
  whatsappStream :: "track list option"
  browserOfferSdp :: json
  whatsappOfferSdp :: json
  browserSocket :: "socket option"
  currentCallId :: json
  callInProgress :: bool
  trace :: "out list"

definition initial :: state where
  "initial =
     \<lparr>browserPc = None, browserStream = None, whatsappPc = None, whatsappStream = None,
      browserOfferSdp = JNull, whatsappOfferSdp = JNull, browserSocket = None,
      currentCallId = JNull, callInProgress = False, trace = []\<rparr>"

definition effect :: "out \<Rightarrow> state \<Rightarrow> state" where
  "effect x s = s\<lparr>trace := trace s @ [x]\<rparr>"

fun isStr :: "json \<Rightarrow> bool" where
  "isStr (JStr s) = True"
| "isStr v = False"

section \<open>The bridge\<close>

text \<open>
  One run of \<^verbatim>\<open>initiateWebRTCBridge\<close> depends on what the WebRTC engine and the provider
  do; these outcomes are the fields of \<open>bridge_env\<close>: whether each \<^verbatim>\<open>setRemoteDescription\<close>
  succeeds, the tracks the browser leg has delivered when they are forwarded, the silent
  placeholder track (\<open>None\<close> when creating it throws), the stream of the provider leg's
  track event (\<open>None\<close> when no track arrives and the five-second wait times out), the two
  answers (\<open>None\<close> when \<^verbatim>\<open>createAnswer\<close> or \<^verbatim>\<open>setLocalDescription\<close> throws), the ICE
  candidates the browser leg reports while the run waits for the provider leg's answer and
  while it waits for the reply to \<^verbatim>\<open>pre_accept\<close>, and the result of the \<^verbatim>\<open>pre_accept\<close>
  request. A handler runs from start to end without another event in between; what it
  leaves to a timer is recorded as \<open>SetTimeout\<close> and run by the functions \<open>acceptTimer\<close>
  and \<open>clearOffers\<close> below.
\<close>

record bridge_env =
  browserSetRemoteOk :: bool
  browserTracks :: "track list"
  whatsappSetRemoteOk :: bool
  dummyTrack :: "track option"
  whatsappTrackEvent :: "track list option"
  browserAnswer :: "string option"
  browserCandidates :: "json list"
  waAnswer :: "string option"
  lateCandidates :: "json list"
  preAcceptSuccess :: bool

text \<open>
  The observers registered on the browser leg. \<^verbatim>\<open>ontrack\<close> adds the tracks to
  \<^verbatim>\<open>browserStream\<close> (\<open>browserTracks\<close>). \<^verbatim>\<open>oniceconnectionstatechange\<close> only logs.
  \<^verbatim>\<open>onicecandidate\<close> forwards every candidate that is not \<^verbatim>\<open>null\<close> to the browser socket
  as a \<^verbatim>\<open>browser-candidate\<close> event; the leg gathers candidates once its local description
  is set, so these events follow the browser answer: those of a run are in
  \<open>browserCandidates\<close> and \<open>lateCandidates\<close>, a candidate reported after the run is the
  event \<open>onicecandidate\<close>.
\<close>

definition candidateOut :: "socket \<Rightarrow> json list \<Rightarrow> out list" where
  "candidateOut sock cs = map (\<lambda>c. Emit sock ''browser-candidate'' [c]) cs"

definition effects :: "out list \<Rightarrow> state \<Rightarrow> state" where
  "effects xs s = s\<lparr>trace := trace s @ xs\<rparr>"

definition onicecandidate :: "json \<Rightarrow> state \<Rightarrow> state" where
  "onicecandidate candidate s =
     (if truthy candidate
      then (case browserSocket s of
              None \<Rightarrow> effect (Unhandled TypeError) s
            | Some sock \<Rightarrow> effect (Emit sock ''browser-candidate'' [candidate]) s)
      else s)"

text \<open>
  The body of the \<^verbatim>\<open>try\<close> block, in four stages. \<open>Inl s\<close> is an exception thrown with
  the variables as in \<open>s\<close>; \<open>Inr s\<close> is normal completion.
\<close>

definition setupBrowserPc :: "bridge_env \<Rightarrow> state \<Rightarrow> state + state" where
  "setupBrowserPc env s =
     (let s1 = s\<lparr>browserPc := Some RTCPeerConnection, browserStream := Some []\<rparr>
      in if \<not> browserSetRemoteOk env then Inl s1
         else Inr (s1\<lparr>browserPc := Some (RTCPeerConnection\<lparr>remoteDescription := browserOfferSdp s\<rparr>),
                      browserStream := Some (browserTracks env)\<rparr>))"

text \<open>
  The stored provider offer can be any truthy JSON value (the webhook stores it before it
  fails on a value that is not a string). A string is normalised. An array also answers
  \<^verbatim>\<open>includes\<close>, by membership: when it contains the attribute it is handed to the engine as
  it is, otherwise \<^verbatim>\<open>replace\<close> is missing and the call throws. Any other value has no
  \<^verbatim>\<open>includes\<close>, and the call throws. The provider leg's \<^verbatim>\<open>ontrack\<close> stores the stream in
  \<^verbatim>\<open>whatsappStream\<close> when the track event fires, which is when the remote description is
  applied; without a track event the variable keeps the stream of an earlier call.
\<close>

definition storeStream :: "bridge_env \<Rightarrow> state \<Rightarrow> state" where
  "storeStream env s =
     (case whatsappTrackEvent env of
        None \<Rightarrow> s
      | Some ws \<Rightarrow> s\<lparr>whatsappStream := Some ws\<rparr>)"

definition setupWhatsappPc :: "bridge_env \<Rightarrow> state \<Rightarrow> state + state" where
  "setupWhatsappPc env s =
     (let s1 = s\<lparr>whatsappPc := Some RTCPeerConnection\<rparr>
      in case whatsappOfferSdp s of
           JStr sdp \<Rightarrow>
             if \<not> whatsappSetRemoteOk env then Inl s1
             else Inr (storeStream env (s1\<lparr>whatsappPc :=
                        Some (RTCPeerConnection\<lparr>remoteDescription := JStr (modifiedWhatsappSdp sdp)\<rparr>)\<rparr>))
         | JArr xs \<Rightarrow>
             if JStr ''a=setup:actpass'' \<in> set xs \<and> whatsappSetRemoteOk env
             then Inr (storeStream env
                        (s1\<lparr>whatsappPc := Some (RTCPeerConnection\<lparr>remoteDescription := JArr xs\<rparr>)\<rparr>))
             else Inl s1
         | _ \<Rightarrow> Inl s1)"

definition addTracks :: "track list \<Rightarrow> peer option \<Rightarrow> peer option" where
  "addTracks ts pc = map_option (\<lambda>p. p\<lparr>senders := senders p @ ts\<rparr>) pc"

text \<open>
  The placeholder track when the browser stream has no audio track, the browser's audio
  tracks onto the provider leg, and, after the wait for the provider's track, the audio
  tracks of the stored provider stream onto the browser leg.
\<close>

definition forwardTracks :: "bridge_env \<Rightarrow> state \<Rightarrow> state + state" where
  "forwardTracks env s =
     (case browserStream s of
        None \<Rightarrow> Inl s
      | Some ts \<Rightarrow>
          (case (if getAudioTracks ts = [] then map_option (\<lambda>d. ts @ [d]) (dummyTrack env)
                 else Some ts) of
             None \<Rightarrow> Inl s
           | Some ts' \<Rightarrow>
               (let s1 = s\<lparr>browserStream := Some ts',
                           whatsappPc := addTracks (getAudioTracks ts') (whatsappPc s)\<rparr>
                in case whatsappStream s1 of
                     None \<Rightarrow> Inr s1
                   | Some ws \<Rightarrow>
                       Inr (s1\<lparr>browserPc := addTracks (getAudioTracks ws) (browserPc s1)\<rparr>))))"

definition setLocal :: "string \<Rightarrow> peer option \<Rightarrow> peer option" where
  "setLocal a pc = map_option (\<lambda>p. p\<lparr>localDescription := JStr a\<rparr>) pc"

definition answerLegs :: "bridge_env \<Rightarrow> state \<Rightarrow> state + state" where
  "answerLegs env s =
     (case browserAnswer env of
        None \<Rightarrow> Inl s
      | Some ba \<Rightarrow>
          (let s1 = s\<lparr>browserPc := setLocal ba (browserPc s)\<rparr>
           in case browserSocket s1 of
                None \<Rightarrow> Inl s1
              | Some sock \<Rightarrow>
                  (let s2 = effects (candidateOut sock (browserCandidates env))
                              (effect (Emit sock ''browser-answer'' [JStr ba]) s1)
                   in case waAnswer env of
                        None \<Rightarrow> Inl s2
                      | Some wa \<Rightarrow>
                          (let s3 = s2\<lparr>whatsappPc := setLocal wa (whatsappPc s2)\<rparr>;
                               s4 = effects (candidateOut sock (lateCandidates env))
                                      (effect (ApiAnswer (currentCallId s3) (finalWaSdp wa) ''pre_accept'') s3);
                               s5 = (if preAcceptSuccess env
                                     then effect (SetTimeout (AcceptTimer (finalWaSdp wa)) 1500) s4
                                     else (effect (ConsoleError ''Pre-accept failed. Aborting accept step.'') s4)
                                            \<lparr>callInProgress := False\<rparr>)
                           in Inr (effect (SetTimeout ClearOffers 5000) s5)))))"

definition bridgeTry :: "bridge_env \<Rightarrow> state \<Rightarrow> state + state" where
  "bridgeTry env s =
     (case setupBrowserPc env s of
        Inl e \<Rightarrow> Inl e
      | Inr s1 \<Rightarrow>
          (case setupWhatsappPc env s1 of
             Inl e \<Rightarrow> Inl e
           | Inr s2 \<Rightarrow>
               (case forwardTracks env s2 of
                  Inl e \<Rightarrow> Inl e
                | Inr s3 \<Rightarrow> answerLegs env s3)))"

definition initiateWebRTCBridge :: "bridge_env \<Rightarrow> state \<Rightarrow> state" where
  "initiateWebRTCBridge env s =
     (if callInProgress s then s
      else if \<not> truthy (browserOfferSdp s) \<or> \<not> truthy (whatsappOfferSdp s) \<or> browserSocket s = None
      then s
      else (case bridgeTry env (s\<lparr>callInProgress := True\<rparr>) of
              Inr s' \<Rightarrow> s'
            | Inl s' \<Rightarrow> (effect (ConsoleError ''Error in WebRTC bridge:'') s')\<lparr>callInProgress := False\<rparr>))"

text \<open>
  The timer started after a successful \<^verbatim>\<open>pre_accept\<close>: it sends \<^verbatim>\<open>accept\<close> for the call id
  stored when it fires; \<open>acceptSuccess\<close> is the result of that request.
\<close>

definition acceptTimer :: "bool \<Rightarrow> string \<Rightarrow> state \<Rightarrow> state" where
  "acceptTimer acceptSuccess sdp s =
     (let s1 = effect (ApiAnswer (currentCallId s) sdp ''accept'') s
      in case (if acceptSuccess then browserSocket s1 else None) of
           Some sock \<Rightarrow> effect (Emit sock ''start-browser-timer'' []) s1
         | None \<Rightarrow> effect (ConsoleError ''Accept failed'') s1)"

definition clearOffers :: "state \<Rightarrow> state" where
  "clearOffers s = s\<lparr>browserOfferSdp := JNull, whatsappOfferSdp := JNull\<rparr>"


section \<open>Events from the browser\<close>

text \<open>
  The Socket.IO handlers of one connected socket \<open>sock\<close> (the socket's id). The handlers
  are \<^verbatim>\<open>async\<close> functions without a \<^verbatim>\<open>try\<close> of their own: an error thrown in one leaves
  it as \<open>Unhandled\<close>. \<^verbatim>\<open>browser-offer\<close> calls \<^verbatim>\<open>sdp.substring\<close> first, which throws
  unless \<open>sdp\<close> is a string.
\<close>

definition browser_offer :: "bridge_env \<Rightarrow> socket \<Rightarrow> json \<Rightarrow> json \<Rightarrow> state \<Rightarrow> state" where
  "browser_offer env sock sdp callId s =
     (if \<not> isStr sdp then effect (Unhandled TypeError) s
      else (let s1 = s\<lparr>browserOfferSdp := sdp, browserSocket := Some sock\<rparr>;
                s2 = (if truthy callId then s1\<lparr>currentCallId := callId\<rparr> else s1)
            in initiateWebRTCBridge env s2))"

text \<open>
  \<^verbatim>\<open>reject-call\<close> calls \<^verbatim>\<open>rejectCall(callId)\<close>, a name that \<^verbatim>\<open>server.js\<close> never defines:
  evaluating it throws a ReferenceError before the line that resets the flag.
\<close>

definition reject_call :: "socket \<Rightarrow> json \<Rightarrow> state \<Rightarrow> state" where
  "reject_call sock callId s = effect (Unhandled ReferenceError) s"

definition accept_call :: "bridge_env \<Rightarrow> socket \<Rightarrow> json \<Rightarrow> state \<Rightarrow> state" where
  "accept_call env sock callId s =
     (let s1 = s\<lparr>browserSocket := Some sock, currentCallId := callId\<rparr>
      in if truthy (whatsappOfferSdp s1) \<and> \<not> truthy (browserOfferSdp s1) then s1
         else if truthy (whatsappOfferSdp s1) \<and> truthy (browserOfferSdp s1)
         then initiateWebRTCBridge env s1
         else s1)"

text \<open>\<^verbatim>\<open>terminateCall\<close> posts the action \<^verbatim>\<open>terminate\<close> and catches every failure of the request.\<close>

definition terminateCall :: "json \<Rightarrow> state \<Rightarrow> state" where
  "terminateCall callId s = effect (ApiTerminate callId) s"

definition terminate_call :: "socket \<Rightarrow> json \<Rightarrow> state \<Rightarrow> state" where
  "terminate_call sock callId s = (terminateCall callId s)\<lparr>callInProgress := False\<rparr>"

definition disconnect :: "socket \<Rightarrow> state \<Rightarrow> state" where
  "disconnect sock s =
     (if browserSocket s = Some sock then s\<lparr>callInProgress := False\<rparr> else s)"

section \<open>Outbound calls and the permission check\<close>

text \<open>
  A request to the provider either gets a response (its \<^verbatim>\<open>data\<close>) or fails with an error
  (the \<^verbatim>\<open>data\<close> of the error's response, \<^verbatim>\<open>undefined\<close> when there is none, and the error's
  message). \<open>call_env\<close> holds the replies to the requests of one outbound call attempt and
  whether preparing the local offer succeeds.
\<close>

datatype api_reply = Response json | Failure json string

record call_env =
  probeSetupOk :: bool
  probeReply :: api_reply
  directSetupError :: "string option"
  directReply :: api_reply
  permissionReply :: api_reply

record permission_status =
  hasPermission :: bool
  status :: string

record result =
  success :: bool
  call_id :: json
  messageId :: json
  error :: json
  data :: json

definition checkCallPermission :: "call_env \<Rightarrow> string \<Rightarrow> state \<Rightarrow> permission_status \<times> state" where
  "checkCallPermission cenv phoneNumber s =
     (if \<not> probeSetupOk cenv then (\<lparr>hasPermission = False, status = ''error''\<rparr>, s)
      else (let s1 = effect (ApiConnect Probe phoneNumber) s
            in case probeReply cenv of
                 Response d \<Rightarrow>
                   if opt_prop d ''success'' = JBool True
                   then (\<lparr>hasPermission = True, status = ''granted''\<rparr>,
                         if truthy (lookup d ''call_id'')
                         then effect (ApiTerminate (lookup d ''call_id'')) s1 else s1)
                   else (\<lparr>hasPermission = False, status = ''unknown''\<rparr>, s1)
               | Failure d msg \<Rightarrow>
                   if opt_prop (opt_prop d ''error'') ''code'' = JNum 138006
                   then (\<lparr>hasPermission = False, status = ''denied''\<rparr>, s1)
                   else (\<lparr>hasPermission = False, status = ''error''\<rparr>, s1)))"

definition failed :: "json \<Rightarrow> json \<Rightarrow> result" where
  "failed e d = \<lparr>success = False, call_id = JUndef, messageId = JUndef, error = e, data = d\<rparr>"

text \<open>
  \<^verbatim>\<open>errorMsg.includes(pat)\<close> in the \<^verbatim>\<open>catch\<close> block of \<^verbatim>\<open>initiateDirectCall\<close>: a substring
  test on a string, a membership test on an array, a TypeError on anything else.
\<close>

fun msg_includes :: "json \<Rightarrow> string \<Rightarrow> error + bool" where
  "msg_includes (JStr m) pat = Inr (str_includes m pat)"
| "msg_includes (JArr xs) pat = Inr (JStr pat \<in> set xs)"
| "msg_includes v pat = Inl TypeError"

definition directCallError :: "json \<Rightarrow> string \<Rightarrow> error + result" where
  "directCallError d msg =
     (let errorMsg = js_or (opt_prop (opt_prop d ''error'') ''message'') (JStr msg);
          errorCode = opt_prop (opt_prop d ''error'') ''code''
      in case (msg_includes errorMsg ''already ongoing'', msg_includes errorMsg ''already in progress'',
               msg_includes errorMsg ''busy'') of
           (Inr b1, Inr b2, Inr b3) \<Rightarrow>
             Inr (failed
               (if b1 \<or> b2 \<or> b3
                then JStr ''The recipient is already on another call. Please try again later.''
                else if errorCode = JNum 138010
                then JStr ''Call rate limit reached. Please wait a moment before trying again.''
                else if errorCode = JNum 138006
                then JStr ''No approved call permission from recipient. Please request permission first.''
                else errorMsg) d)
         | _ \<Rightarrow> Inl TypeError)"

definition initiateDirectCall :: "call_env \<Rightarrow> string \<Rightarrow> state \<Rightarrow> (error + result) \<times> state" where
  "initiateDirectCall cenv phoneNumber s =
     (case directSetupError cenv of
        Some msg \<Rightarrow> (directCallError JUndef msg, s)
      | None \<Rightarrow>
          (let s1 = effect (ApiConnect Place phoneNumber) s
           in case directReply cenv of
                Response d \<Rightarrow>
                  if opt_prop d ''success'' = JBool True \<or> truthy (opt_prop d ''id'')
                  then (Inr \<lparr>success = True, call_id = js_or (opt_prop d ''call_id'') (opt_prop d ''id''),
                             messageId = JUndef, error = JUndef, data = JUndef\<rparr>, s1)
                  else (Inr (failed (JStr ''API returned unsuccessful response'') d), s1)
              | Failure d msg \<Rightarrow> (directCallError d msg, s1)))"

definition sendCallPermissionRequest :: "call_env \<Rightarrow> string \<Rightarrow> state \<Rightarrow> result \<times> state" where
  "sendCallPermissionRequest cenv phoneNumber s =
     (let s1 = effect (ApiPermissionRequest phoneNumber) s
      in case permissionReply cenv of
           Response d \<Rightarrow>
             (\<lparr>success = True, call_id = JUndef,
               messageId = opt_prop (opt_prop (opt_prop d ''messages'') ''0'') ''id'',
               error = JUndef, data = d\<rparr>, s1)
         | Failure d msg \<Rightarrow>
             (let errorData = js_or d (JObj [])
              in if opt_prop (opt_prop errorData ''error'') ''code'' = JNum 138009
                 then (failed (JStr ''Rate limit reached for permission requests to this number. WhatsApp allows only one permission request every 24 hours.'') JUndef, s1)
                 else (failed (js_or (opt_prop (opt_prop errorData ''error'') ''message'') (JStr msg)) JUndef, s1)))"

text \<open>\<^verbatim>\<open>phoneNumber.replace(/^\+/, '')\<close>\<close>

fun formatNumber :: "string \<Rightarrow> string" where
  "formatNumber [] = []"
| "formatNumber (c # cs) = (if c = CHR ''+'' then cs else c # cs)"

text \<open>The permission request and the event that reports its result (twice in \<^verbatim>\<open>smart-call\<close>).\<close>

definition requestPermission :: "call_env \<Rightarrow> socket \<Rightarrow> string \<Rightarrow> state \<Rightarrow> state" where
  "requestPermission cenv sock formattedNumber s =
     (case sendCallPermissionRequest cenv formattedNumber s of
        (r, s1) \<Rightarrow>
          if success r
          then effect (Emit sock ''permission-request-sent''
                 [JObj [(''phoneNumber'', JStr formattedNumber), (''messageId'', messageId r)]]) s1
          else effect (Emit sock ''permission-request-failed''
                 [js_or (error r) (JStr ''Unknown error'')]) s1)"

text \<open>The \<^verbatim>\<open>smart-call\<close> handler, for a payload whose \<^verbatim>\<open>phoneNumber\<close> is a string.\<close>

definition smart_call :: "call_env \<Rightarrow> socket \<Rightarrow> string \<Rightarrow> state \<Rightarrow> state" where
  "smart_call cenv sock phoneNumber s =
     (let formattedNumber = formatNumber phoneNumber;
          s1 = s\<lparr>browserSocket := Some sock\<rparr>
      in case checkCallPermission cenv formattedNumber s1 of
           (permissionStatus, s2) \<Rightarrow>
             if hasPermission permissionStatus
             then (let s3 = effect (Emit sock ''call-status''
                               [JStr ''Permission already granted. Making call directly...'']) s2
                   in case initiateDirectCall cenv formattedNumber s3 of
                        (Inl e, s4) \<Rightarrow>
                          effect (Emit sock ''call-failed'' [JStr ''errorMsg.includes is not a function'']) s4
                      | (Inr r, s4) \<Rightarrow>
                          if success r
                          then (effect (Emit sock ''call-initiated'' []) s4)\<lparr>currentCallId := call_id r\<rparr>
                          else if opt_prop (opt_prop (data r) ''error'') ''code'' = JNum 138006
                          then requestPermission cenv sock formattedNumber
                                 (effect (Emit sock ''permission-needed''
                                            [JObj [(''phoneNumber'', JStr formattedNumber)]])
                                    (effect (Emit sock ''call-failed''
                                               [JStr ''No approved call permission from recipient. Sending permission request...'']) s4))
                          else effect (Emit sock ''call-failed''
                                 [js_or (error r) (JStr ''Failed to initiate call'')]) s4)
             else requestPermission cenv sock formattedNumber
                    (effect (Emit sock ''permission-needed''
                               [JObj [(''phoneNumber'', JStr formattedNumber)]]) s2))"

section \<open>The webhook\<close>

text \<open>
  \<^verbatim>\<open>app.post("/call-events")\<close>. The body of its \<^verbatim>\<open>try\<close> block ends normally, returns early
  (after sending the status itself) or throws; the variables assigned before a throw keep
  their new values.
\<close>

datatype completion = Normal | Returned | Thrown error

record webhook_env =
  coerce :: "json \<Rightarrow> bool"
  bridge :: bridge_env

text \<open>\<^verbatim>\<open>v && v.length > 0\<close>\<close>

definition nonEmpty :: "(json \<Rightarrow> bool) \<Rightarrow> json \<Rightarrow> bool" where
  "nonEmpty co v = (truthy v \<and> gt0 co (lookup v ''length''))"

definition callBranch :: "webhook_env \<Rightarrow> json \<Rightarrow> state \<Rightarrow> completion \<times> state" where
  "callBranch wenv val s =
     (let call = lookup (lookup val ''calls'') ''0''
      in if \<not> truthy call \<or> \<not> truthy (lookup call ''id'') \<or> \<not> truthy (lookup call ''event'')
         then (Returned, effect (Respond 200) s)
         else (let s1 = s\<lparr>currentCallId := lookup call ''id''\<rparr>
               in if lookup call ''event'' = JStr ''connect''
                  then (let sdp = opt_prop (opt_prop call ''session'') ''sdp'';
                            s2 = s1\<lparr>whatsappOfferSdp := sdp\<rparr>
                        in if \<not> nullish sdp \<and> \<not> isStr sdp then (Thrown TypeError, s2)
                           else (Normal, initiateWebRTCBridge (bridge wenv) s2))
                  else if lookup call ''event'' = JStr ''terminate''
                  then (Normal, (effect (Broadcast ''call-ended'' []) s1)\<lparr>callInProgress := False\<rparr>)
                  else (Normal, s1)))"

definition toBrowserSocket :: "string \<Rightarrow> json list \<Rightarrow> state \<Rightarrow> state" where
  "toBrowserSocket name args s =
     (case browserSocket s of None \<Rightarrow> s | Some sock \<Rightarrow> effect (Emit sock name args) s)"

definition permissionBranch :: "json \<Rightarrow> state \<Rightarrow> completion \<times> state" where
  "permissionBranch val s =
     (let permission = lookup (lookup val ''call_permissions'') ''0''
      in if nullish permission then (Thrown TypeError, s)
         else (let waId = lookup permission ''wa_id'';
                   st = lookup permission ''status''
               in (Normal,
                   toBrowserSocket ''call-permission-update''
                     [JObj [(''phoneNumber'', waId), (''status'', st)]]
                     (effect (Broadcast ''call-permission-update''
                                [JObj [(''phoneNumber'', waId), (''status'', st)]]) s))))"

definition statusBranch :: "json \<Rightarrow> state \<Rightarrow> completion \<times> state" where
  "statusBranch val s =
     (let st = lookup (lookup val ''statuses'') ''0''
      in if nullish st then (Thrown TypeError, s)
         else if lookup st ''status'' = JStr ''delivered'' \<or> lookup st ''status'' = JStr ''read''
         then (Normal, effect (Broadcast ''message-status-update''
                 [JObj [(''messageId'', lookup st ''id''), (''status'', lookup st ''status'')]]) s)
         else (Normal, s))"

text \<open>
  A permission reply arriving as a message. When permission was granted and a browser
  socket is stored, the handler starts a one-second timer that places the call; what that
  timer does when it fires is not part of this model.
\<close>

definition messageBranch :: "json \<Rightarrow> state \<Rightarrow> completion \<times> state" where
  "messageBranch val s =
     (let message = lookup (lookup val ''messages'') ''0''
      in if nullish message then (Thrown TypeError, s)
         else if lookup message ''type'' = JStr ''interactive''
                 \<and> opt_prop (lookup message ''interactive'') ''type'' = JStr ''call_permission_reply''
                 \<and> truthy (opt_prop (lookup message ''interactive'') ''call_permission_reply'')
         then (let permissionReply = lookup (lookup message ''interactive'') ''call_permission_reply'';
                   response = lookup permissionReply ''response'';
                   waId = lookup message ''from'';
                   callerName = js_or (opt_prop (opt_prop (opt_prop (opt_prop val ''contacts'') ''0'')
                                          ''profile'') ''name'') (JStr ''Unknown User'');
                   st = (if response = JStr ''accept'' then ''granted'' else ''denied'');
                   s1 = effect (Broadcast ''call-permission-update''
                          [JObj [(''phoneNumber'', waId), (''callerName'', callerName),
                                 (''status'', JStr st)]]) s
               in case browserSocket s1 of
                    None \<Rightarrow> (Normal, s1)
                  | Some sock \<Rightarrow>
                      (let s2 = effect (Emit sock ''call-permission-update''
                                  [JObj [(''phoneNumber'', waId), (''status'', JStr st)]]) s1
                       in if st = ''granted'' \<and> truthy waId
                          then (Normal,
                                effect (SetTimeout (AutoCall waId callerName) 1000)
                                  (effect (Emit sock ''call-status''
                                     [JStr ''Permission granted! Initiating call automatically...'']) s2))
                          else (Normal, s2)))
         else (Normal, s))"

definition callEventsTry :: "webhook_env \<Rightarrow> json \<Rightarrow> state \<Rightarrow> completion \<times> state" where
  "callEventsTry wenv body s =
     (let entry = opt_prop (opt_prop body ''entry'') ''0'';
          change = opt_prop (opt_prop entry ''changes'') ''0'';
          val = opt_prop change ''value''
      in if nonEmpty (coerce wenv) (opt_prop val ''calls'') then callBranch wenv val s
         else if nonEmpty (coerce wenv) (opt_prop val ''call_permissions'') then permissionBranch val s
         else if nonEmpty (coerce wenv) (opt_prop val ''statuses'') then statusBranch val s
         else if nonEmpty (coerce wenv) (opt_prop val ''messages'') then messageBranch val s
         else (Normal, s))"

definition call_events :: "webhook_env \<Rightarrow> json \<Rightarrow> state \<Rightarrow> state" where
  "call_events wenv body s =
     (case callEventsTry wenv body s of
        (Normal, s') \<Rightarrow> effect (Respond 200) s'
      | (Returned, s') \<Rightarrow> s'
      | (Thrown e, s') \<Rightarrow> effect (Respond 200) s')"

text \<open>The statuses sent in a trace, in order.\<close>

fun responses :: "out list \<Rightarrow> nat list" where
  "responses [] = []"
| "responses (Respond n # xs) = n # responses xs"
| "responses (x # xs) = responses xs"

text \<open>A webhook body carrying one call event.\<close>

definition callBody :: "json \<Rightarrow> json" where
  "callBody call =
     JObj [(''entry'', JArr [JObj [(''changes'', JArr [JObj [(''value'',
       JObj [(''calls'', JArr [call])])]])]])]"

definition connectEvent :: "string \<Rightarrow> json \<Rightarrow> json" where
  "connectEvent callId sdp =
     callBody (JObj [(''id'', JStr callId), (''event'', JStr ''connect''),
                      (''session'', JObj [(''sdp'', sdp)])])"

definition terminateEvent :: "string \<Rightarrow> json" where
  "terminateEvent callId = callBody (JObj [(''id'', JStr callId), (''event'', JStr ''terminate'')])"


section \<open>Reading traces\<close>

text \<open>What a handler added to the trace when it took the variables from \<open>s\<close> to \<open>s'\<close>.\<close>

definition new_out :: "state \<Rightarrow> state \<Rightarrow> out list" where
  "new_out s s' = drop (length (trace s)) (trace s')"

text \<open>An event of the given name was emitted, to one socket or to all.\<close>

fun emitted :: "string \<Rightarrow> out list \<Rightarrow> bool" where
  "emitted name [] = False"
| "emitted name (Emit sock n args # xs) = (n = name \<or> emitted name xs)"
| "emitted name (Broadcast n args # xs) = (n = name \<or> emitted name xs)"
| "emitted name (x # xs) = emitted name xs"

text \<open>A \<^verbatim>\<open>pre_accept\<close> or \<^verbatim>\<open>accept\<close> request with the given action was sent.\<close>

fun answered :: "string \<Rightarrow> out list \<Rightarrow> bool" where
  "answered action [] = False"
| "answered action (ApiAnswer c sdp a # xs) = (a = action \<or> answered action xs)"
| "answered action (x # xs) = answered action xs"

text \<open>The accept timer was started.\<close>

fun acceptScheduled :: "out list \<Rightarrow> bool" where
  "acceptScheduled [] = False"
| "acceptScheduled (SetTimeout (AcceptTimer sdp) n # xs) = True"
| "acceptScheduled (x # xs) = acceptScheduled xs"

text \<open>A \<^verbatim>\<open>connect\<close> request that places an outbound call was sent.\<close>

fun placed :: "out list \<Rightarrow> bool" where
  "placed [] = False"
| "placed (ApiConnect Place t # xs) = True"
| "placed (x # xs) = placed xs"

text \<open>Whether a leg handle is present and has not been closed.\<close>

definition legOpen :: "peer option \<Rightarrow> bool" where
  "legOpen pc = (case pc of None \<Rightarrow> False | Some p \<Rightarrow> \<not> closed p)"


text \<open>
  What the bridge writes after the \<^verbatim>\<open>pre_accept\<close> request: the accept timer on success,
  the error line on failure.
\<close>

definition preAcceptOut :: "bridge_env \<Rightarrow> string \<Rightarrow> out" where
  "preAcceptOut env wa =
     (if preAcceptSuccess env then SetTimeout (AcceptTimer (finalWaSdp wa)) 1500
      else ConsoleError ''Pre-accept failed. Aborting accept step.'')"

section \<open>Concrete runs\<close>

text \<open>An engine and a provider that make every step of the bridge succeed.\<close>

definition okEnv :: bridge_env where
  "okEnv =
     \<lparr>browserSetRemoteOk = True, browserTracks = [(''mic'', Audio)],
      whatsappSetRemoteOk = True, dummyTrack = Some (''silent'', Audio),
      whatsappTrackEvent = Some [(''wa'', Audio)],
      browserAnswer = Some ''v=0'', browserCandidates =
        [JObj [(''candidate'', JStr ''candidate:1 1 udp 2122260223 192.0.2.1 54321 typ host''),
               (''sdpMid'', JStr ''0''), (''sdpMLineIndex'', JNum 0)]],
      waAnswer = Some ''a=group:BUNDLE 0'', lateCandidates = [],
      preAcceptSuccess = True\<rparr>"

definition failEnv :: bridge_env where
  "failEnv = okEnv\<lparr>preAcceptSuccess := False\<rparr>"

definition okWebhook :: webhook_env where
  "okWebhook = \<lparr>coerce = (\<lambda>v. False), bridge = okEnv\<rparr>"

text \<open>Both offers and the browser socket are stored, no call is in progress.\<close>

definition ready :: state where
  "ready =
     initial\<lparr>browserOfferSdp := JStr ''v=0'', whatsappOfferSdp := JStr ''a=fingerprint:sha-256 AB'',
             browserSocket := Some ''sock1'', currentCallId := JStr ''abc123''\<rparr>"

text \<open>The state after a bridge run in which everything succeeded: a call is in progress.\<close>

definition bridged :: state where
  "bridged = initiateWebRTCBridge okEnv ready"


text \<open>The state after a bridge run in which only the \<^verbatim>\<open>pre_accept\<close> request failed.\<close>

definition aborted :: state where
  "aborted = initiateWebRTCBridge failEnv ready"

text \<open>
  The \<^verbatim>\<open>try\<close> and \<^verbatim>\<open>catch\<close> of \<^verbatim>\<open>initiateWebRTCBridge\<close>, entered with the flag set once
  both guards are passed.
\<close>

definition bridgeRun :: "bridge_env \<Rightarrow> state \<Rightarrow> state" where
  "bridgeRun env s =
     (case bridgeTry env (s\<lparr>callInProgress := True\<rparr>) of
        Inr s' \<Rightarrow> s'
      | Inl s' \<Rightarrow> (effect (ConsoleError ''Error in WebRTC bridge:'') s')\<lparr>callInProgress := False\<rparr>)"

text \<open>The variables once a browser offer and a \<^verbatim>\<open>connect\<close> event of the same call are stored.\<close>

definition bothOffers :: "socket \<Rightarrow> string \<Rightarrow> string \<Rightarrow> string \<Rightarrow> state \<Rightarrow> state" where
  "bothOffers sock sdp cid wsdp s =
     s\<lparr>browserOfferSdp := JStr sdp, browserSocket := Some sock,
       currentCallId := JStr cid, whatsappOfferSdp := JStr wsdp\<rparr>"

text \<open>A webhook body whose permission entry is \<^verbatim>\<open>null\<close>: reading its \<^verbatim>\<open>wa_id\<close> throws.\<close>

definition throwingBody :: json where
  "throwingBody = JObj [(''entry'', JArr [JObj [(''changes'', JArr [JObj [(''value'',
       JObj [(''call_permissions'', JArr [JNull])])]])]])]"

text \<open>A provider that rejects the permission probe with code 138006 and accepts the permission request.\<close>

definition deniedEnv :: call_env where
  "deniedEnv =
     \<lparr>probeSetupOk = True,
      probeReply = Failure (JObj [(''error'', JObj [(''code'', JNum 138006), (''message'', JStr ''Call permission required'')])]) ''Request failed with status code 400'',
      directSetupError = None,
      directReply = Response (JObj [(''success'', JBool True), (''call_id'', JStr ''abc123'')]),
      permissionReply = Response (JObj [(''messages'', JArr [JObj [(''id'', JStr ''wamid.1'')]])])\<rparr>"

text \<open>A provider offer with neither an \<^verbatim>\<open>a=setup:actpass\<close> line nor a fingerprint line.\<close>

definition noFingerprintOffer :: string where
  "noFingerprintOffer =
     ''v=0'' @ crlf @ ''m=audio 9 UDP/TLS/RTP/SAVPF 111'' @ crlf @ ''a=ice-ufrag:abcd'' @ crlf"


section \<open>Properties of the bridge\<close>

lemma new_out_append: "trace s' = trace s @ xs \<Longrightarrow> new_out s s' = xs"
  by (simp add: new_out_def)

lemma bridge_guard_fail:
  "\<not> truthy (browserOfferSdp s) \<or> \<not> truthy (whatsappOfferSdp s) \<or> browserSocket s = None
   \<Longrightarrow> initiateWebRTCBridge env s = s"
  by (auto simp: initiateWebRTCBridge_def)

lemma bridge_in_progress: "callInProgress s \<Longrightarrow> initiateWebRTCBridge env s = s"
  by (simp add: initiateWebRTCBridge_def)

lemma setupBrowserPc_flag:
  "setupBrowserPc env s = Inr s' \<Longrightarrow> callInProgress s' = callInProgress s"
  by (auto simp: setupBrowserPc_def Let_def split: if_splits)

lemma setupWhatsappPc_flag:
  "setupWhatsappPc env s = Inr s' \<Longrightarrow> callInProgress s' = callInProgress s"
  by (auto simp: setupWhatsappPc_def storeStream_def Let_def split: if_splits json.splits option.splits)

lemma forwardTracks_flag:
  "forwardTracks env s = Inr s' \<Longrightarrow> callInProgress s' = callInProgress s"
  by (auto simp: forwardTracks_def Let_def split: if_splits option.splits)

lemma answerLegs_flag:
  "answerLegs env s = Inr s' \<Longrightarrow> callInProgress s' = (callInProgress s \<and> preAcceptSuccess env)"
  by (auto simp: answerLegs_def Let_def effect_def effects_def split: if_splits option.splits)

lemma bridgeTry_flag:
  "bridgeTry env s = Inr s' \<Longrightarrow> callInProgress s' = (callInProgress s \<and> preAcceptSuccess env)"
  by (auto simp: bridgeTry_def split: sum.splits dest!: setupBrowserPc_flag setupWhatsappPc_flag forwardTracks_flag answerLegs_flag)

lemma setupBrowserPc_trace:
  "setupBrowserPc env (s\<lparr>trace := t\<rparr>) = map_sum (\<lambda>x. x\<lparr>trace := t\<rparr>) (\<lambda>x. x\<lparr>trace := t\<rparr>) (setupBrowserPc env s)"
  by (simp add: setupBrowserPc_def Let_def)

lemma setupWhatsappPc_trace:
  "setupWhatsappPc env (s\<lparr>trace := t\<rparr>) = map_sum (\<lambda>x. x\<lparr>trace := t\<rparr>) (\<lambda>x. x\<lparr>trace := t\<rparr>) (setupWhatsappPc env s)"
  by (simp add: setupWhatsappPc_def storeStream_def Let_def split: json.splits option.splits)

lemma forwardTracks_trace:
  "forwardTracks env (s\<lparr>trace := t\<rparr>) = map_sum (\<lambda>x. x\<lparr>trace := t\<rparr>) (\<lambda>x. x\<lparr>trace := t\<rparr>) (forwardTracks env s)"
  by (simp add: forwardTracks_def Let_def split: option.splits)

lemma answerLegs_trace:
  "answerLegs env (s\<lparr>trace := t\<rparr>) =
     map_sum (\<lambda>x. x\<lparr>trace := t @ drop (length (trace s)) (trace x)\<rparr>)
             (\<lambda>x. x\<lparr>trace := t @ drop (length (trace s)) (trace x)\<rparr>) (answerLegs env s)"
  by (simp add: answerLegs_def Let_def effect_def effects_def split: option.splits)

lemma setupBrowserPc_keeps: "setupBrowserPc env s = Inr s' \<or> setupBrowserPc env s = Inl s' \<Longrightarrow> trace s' = trace s"
  by (auto simp: setupBrowserPc_def Let_def split: if_splits)
lemma setupWhatsappPc_keeps: "setupWhatsappPc env s = Inr s' \<or> setupWhatsappPc env s = Inl s' \<Longrightarrow> trace s' = trace s"
  by (auto simp: setupWhatsappPc_def storeStream_def Let_def split: if_splits json.splits option.splits)
lemma forwardTracks_keeps: "forwardTracks env s = Inr s' \<or> forwardTracks env s = Inl s' \<Longrightarrow> trace s' = trace s"
  by (auto simp: forwardTracks_def Let_def split: if_splits option.splits)

lemma bridgeTry_trace:
  "bridgeTry env (s\<lparr>trace := t\<rparr>) =
     map_sum (\<lambda>x. x\<lparr>trace := t @ drop (length (trace s)) (trace x)\<rparr>)
             (\<lambda>x. x\<lparr>trace := t @ drop (length (trace s)) (trace x)\<rparr>) (bridgeTry env s)"
  apply (simp add: bridgeTry_def setupBrowserPc_trace)
  apply (cases "setupBrowserPc env s")
  subgoal for a using setupBrowserPc_keeps[of env s a] by simp
  subgoal for s1
    using setupBrowserPc_keeps[of env s s1]
    apply (simp add: setupWhatsappPc_trace)
    apply (cases "setupWhatsappPc env s1")
    subgoal for a using setupWhatsappPc_keeps[of env s1 a] by simp
    subgoal for s2
      using setupWhatsappPc_keeps[of env s1 s2]
      apply (simp add: forwardTracks_trace)
      apply (cases "forwardTracks env s2")
      subgoal for a using forwardTracks_keeps[of env s2 a] by simp
      subgoal for s3
        using forwardTracks_keeps[of env s2 s3]
        by (simp add: answerLegs_trace)
      done
    done
  done

lemma answerLegs_Inr:
  "answerLegs env s = Inr s' \<Longrightarrow>
     \<exists>sock ba wa. waAnswer env = Some wa \<and> trace s' = trace s @
        Emit sock ''browser-answer'' [JStr ba] # candidateOut sock (browserCandidates env) @
        ApiAnswer (currentCallId s) (finalWaSdp wa) ''pre_accept'' # candidateOut sock (lateCandidates env) @
        [preAcceptOut env wa, SetTimeout ClearOffers 5000]"
  by (auto simp: answerLegs_def Let_def effect_def effects_def preAcceptOut_def split: if_splits option.splits)

lemma answerLegs_Inl:
  "answerLegs env s = Inl s' \<Longrightarrow>
     trace s' = trace s \<or>
     (\<exists>sock ba. trace s' = trace s @
        Emit sock ''browser-answer'' [JStr ba] # candidateOut sock (browserCandidates env))"
  by (auto simp: answerLegs_def Let_def effect_def effects_def split: if_splits option.splits)

lemma bridgeTry_Inr:
  assumes "bridgeTry env s = Inr s'"
  shows "\<exists>sock ba c wa. waAnswer env = Some wa \<and> trace s' = trace s @
        Emit sock ''browser-answer'' [JStr ba] # candidateOut sock (browserCandidates env) @
        ApiAnswer c (finalWaSdp wa) ''pre_accept'' # candidateOut sock (lateCandidates env) @
        [preAcceptOut env wa, SetTimeout ClearOffers 5000]"
proof -
  from assms obtain s1 s2 s3 where
    1: "setupBrowserPc env s = Inr s1" and 2: "setupWhatsappPc env s1 = Inr s2" and
    3: "forwardTracks env s2 = Inr s3" and 4: "answerLegs env s3 = Inr s'"
    by (auto simp: bridgeTry_def split: sum.splits)
  have "trace s3 = trace s"
    using setupBrowserPc_keeps[of env s s1] setupWhatsappPc_keeps[of env s1 s2]
      forwardTracks_keeps[of env s2 s3] 1 2 3 by simp
  with answerLegs_Inr[OF 4] show ?thesis by auto
qed

lemma bridgeTry_Inl:
  assumes "bridgeTry env s = Inl s'"
  shows "trace s' = trace s \<or>
     (\<exists>sock ba. trace s' = trace s @
        Emit sock ''browser-answer'' [JStr ba] # candidateOut sock (browserCandidates env))"
proof -
  consider (a) "setupBrowserPc env s = Inl s'"
    | (b) s1 where "setupBrowserPc env s = Inr s1" "setupWhatsappPc env s1 = Inl s'"
    | (c) s1 s2 where "setupBrowserPc env s = Inr s1" "setupWhatsappPc env s1 = Inr s2"
        "forwardTracks env s2 = Inl s'"
    | (d) s1 s2 s3 where "setupBrowserPc env s = Inr s1" "setupWhatsappPc env s1 = Inr s2"
        "forwardTracks env s2 = Inr s3" "answerLegs env s3 = Inl s'"
    using assms by (auto simp: bridgeTry_def split: sum.splits)
  then show ?thesis
  proof cases
    case a then show ?thesis using setupBrowserPc_keeps[of env s s'] by simp
  next
    case b then show ?thesis
      using setupBrowserPc_keeps[of env s s1] setupWhatsappPc_keeps[of env s1 s'] by simp
  next
    case c then show ?thesis
      using setupBrowserPc_keeps[of env s s1] setupWhatsappPc_keeps[of env s1 s2]
        forwardTracks_keeps[of env s2 s'] by simp
  next
    case d
    then have "trace s3 = trace s"
      using setupBrowserPc_keeps[of env s s1] setupWhatsappPc_keeps[of env s1 s2]
        forwardTracks_keeps[of env s2 s3] by simp
    with answerLegs_Inl[OF d(4)] show ?thesis by auto
  qed
qed

text \<open>What one call of the bridge adds to the trace.\<close>

lemma bridge_out:
  "new_out s (initiateWebRTCBridge env s) = [] \<and> initiateWebRTCBridge env s = s
   \<or> (\<exists>sock ba c wa. waAnswer env = Some wa \<and> new_out s (initiateWebRTCBridge env s) =
        Emit sock ''browser-answer'' [JStr ba] # candidateOut sock (browserCandidates env) @
        ApiAnswer c (finalWaSdp wa) ''pre_accept'' # candidateOut sock (lateCandidates env) @
        [preAcceptOut env wa, SetTimeout ClearOffers 5000]
        \<and> callInProgress (initiateWebRTCBridge env s) = preAcceptSuccess env)
   \<or> (new_out s (initiateWebRTCBridge env s) = [ConsoleError ''Error in WebRTC bridge:'']
        \<and> \<not> callInProgress (initiateWebRTCBridge env s))
   \<or> (\<exists>sock ba. new_out s (initiateWebRTCBridge env s) =
        Emit sock ''browser-answer'' [JStr ba] # candidateOut sock (browserCandidates env) @
        [ConsoleError ''Error in WebRTC bridge:'']
        \<and> \<not> callInProgress (initiateWebRTCBridge env s))"
proof (cases "callInProgress s \<or> \<not> truthy (browserOfferSdp s) \<or> \<not> truthy (whatsappOfferSdp s) \<or> browserSocket s = None")
  case True
  then have "initiateWebRTCBridge env s = s" by (auto simp: initiateWebRTCBridge_def)
  then show ?thesis by (simp add: new_out_def)
next
  case False
  show ?thesis
  proof (cases "bridgeTry env (s\<lparr>callInProgress := True\<rparr>)")
    case (Inl e)
    from False Inl have eq: "initiateWebRTCBridge env s = (effect (ConsoleError ''Error in WebRTC bridge:'') e)\<lparr>callInProgress := False\<rparr>"
      by (auto simp: initiateWebRTCBridge_def)
    from bridgeTry_Inl[OF Inl] show ?thesis
      by (auto simp: eq new_out_def effect_def)
  next
    case (Inr s')
    from False Inr have eq: "initiateWebRTCBridge env s = s'"
      by (auto simp: initiateWebRTCBridge_def)
    from bridgeTry_Inr[OF Inr] bridgeTry_flag[OF Inr] show ?thesis
      by (auto simp: eq new_out_def)
  qed
qed

lemma bridge_extends: "trace (initiateWebRTCBridge env s) = trace s @ new_out s (initiateWebRTCBridge env s)"
proof (cases "callInProgress s \<or> \<not> truthy (browserOfferSdp s) \<or> \<not> truthy (whatsappOfferSdp s) \<or> browserSocket s = None")
  case True
  then have "initiateWebRTCBridge env s = s" by (auto simp: initiateWebRTCBridge_def)
  then show ?thesis by (simp add: new_out_def)
next
  case False
  show ?thesis
  proof (cases "bridgeTry env (s\<lparr>callInProgress := True\<rparr>)")
    case (Inl e)
    from False Inl have eq: "initiateWebRTCBridge env s = (effect (ConsoleError ''Error in WebRTC bridge:'') e)\<lparr>callInProgress := False\<rparr>"
      by (auto simp: initiateWebRTCBridge_def)
    from bridgeTry_Inl[OF Inl] show ?thesis
      by (auto simp: eq new_out_def effect_def)
  next
    case (Inr s')
    from False Inr have eq: "initiateWebRTCBridge env s = s'"
      by (auto simp: initiateWebRTCBridge_def)
    from bridgeTry_Inr[OF Inr] show ?thesis
      by (auto simp: eq new_out_def)
  qed
qed

lemma bridge_trace:
  "initiateWebRTCBridge env (s\<lparr>trace := t\<rparr>) =
     (initiateWebRTCBridge env s)\<lparr>trace := t @ new_out s (initiateWebRTCBridge env s)\<rparr>"
proof (cases "callInProgress s \<or> \<not> truthy (browserOfferSdp s) \<or> \<not> truthy (whatsappOfferSdp s) \<or> browserSocket s = None")
  case True
  then have "initiateWebRTCBridge env s = s" "initiateWebRTCBridge env (s\<lparr>trace := t\<rparr>) = s\<lparr>trace := t\<rparr>"
    by (auto simp: initiateWebRTCBridge_def)
  then show ?thesis by (simp add: new_out_def)
next
  case False
  have sw: "s\<lparr>trace := t, callInProgress := True\<rparr> = s\<lparr>callInProgress := True, trace := t\<rparr>" by simp
  show ?thesis
  proof (cases "bridgeTry env (s\<lparr>callInProgress := True\<rparr>)")
    case (Inl e)
    with False show ?thesis
      using bridgeTry_trace[where env=env and s="s\<lparr>callInProgress := True\<rparr>" and t=t]
        bridgeTry_Inl[OF Inl]
      by (auto simp: initiateWebRTCBridge_def sw new_out_def effect_def)
  next
    case (Inr s')
    with False show ?thesis
      using bridgeTry_trace[where env=env and s="s\<lparr>callInProgress := True\<rparr>" and t=t]
      by (auto simp: initiateWebRTCBridge_def sw new_out_def effect_def)
  qed
qed


section \<open>Evaluating the concrete runs and the webhook events\<close>

lemma bridged_eval: "bridged = 
  \<lparr>browserPc = Some \<lparr>remoteDescription = JStr ''v=0'', localDescription = JStr ''v=0'', senders = [(''wa'', Audio)], closed = False\<rparr>,
   browserStream = Some [(''mic'', Audio)],
   whatsappPc = Some \<lparr>remoteDescription = JStr (''a=fingerprint:sha-256 AB'' @ crlf @ ''a=setup:actpass''), localDescription = JStr ''a=group:BUNDLE 0'', senders = [(''mic'', Audio)], closed = False\<rparr>,
   whatsappStream = Some [(''wa'', Audio)],
   browserOfferSdp = JStr ''v=0'', whatsappOfferSdp = JStr ''a=fingerprint:sha-256 AB'',
   browserSocket = Some ''sock1'', currentCallId = JStr ''abc123'', callInProgress = True,
   trace = [Emit ''sock1'' ''browser-answer'' [JStr ''v=0''],
            Emit ''sock1'' ''browser-candidate''
              [JObj [(''candidate'', JStr ''candidate:1 1 udp 2122260223 192.0.2.1 54321 typ host''),
                     (''sdpMid'', JStr ''0''), (''sdpMLineIndex'', JNum 0)]],
            ApiAnswer (JStr ''abc123'') (''a=group:BUNDLE 0'' @ crlf @ ''a=ice-options:trickle'') ''pre_accept'',
            SetTimeout (AcceptTimer (''a=group:BUNDLE 0'' @ crlf @ ''a=ice-options:trickle'')) 1500,
            SetTimeout ClearOffers 5000]\<rparr>"
  by (simp add: bridged_def ready_def initial_def okEnv_def initiateWebRTCBridge_def bridgeTry_def
      setupBrowserPc_def setupWhatsappPc_def storeStream_def forwardTracks_def answerLegs_def Let_def effect_def
      effects_def candidateOut_def
      RTCPeerConnection_def modifiedWhatsappSdp_def finalWaSdp_def getAudioTracks_def addTracks_def setLocal_def crlf_def lineTerminator_def)

lemma call_events_terminate: "cid \<noteq> [] \<Longrightarrow> call_events wenv (terminateEvent cid) s =
   s\<lparr>currentCallId := JStr cid, callInProgress := False, trace := trace s @ [Broadcast ''call-ended'' [], Respond 200]\<rparr>"
  by (simp add: call_events_def callEventsTry_def terminateEvent_def callBody_def opt_prop_def nonEmpty_def callBranch_def Let_def effect_def)

lemma call_events_connect: "cid \<noteq> [] \<Longrightarrow> call_events wenv (connectEvent cid sdp) s =
   (if \<not> nullish sdp \<and> \<not> isStr sdp then effect (Respond 200) (s\<lparr>currentCallId := JStr cid, whatsappOfferSdp := sdp\<rparr>)
    else effect (Respond 200) (initiateWebRTCBridge (bridge wenv) (s\<lparr>currentCallId := JStr cid, whatsappOfferSdp := sdp\<rparr>)))"
  by (simp add: call_events_def callEventsTry_def connectEvent_def callBody_def opt_prop_def nonEmpty_def callBranch_def Let_def)

lemma aborted_eval: "aborted = 
  \<lparr>browserPc = Some \<lparr>remoteDescription = JStr ''v=0'', localDescription = JStr ''v=0'', senders = [(''wa'', Audio)], closed = False\<rparr>,
   browserStream = Some [(''mic'', Audio)],
   whatsappPc = Some \<lparr>remoteDescription = JStr (''a=fingerprint:sha-256 AB'' @ crlf @ ''a=setup:actpass''), localDescription = JStr ''a=group:BUNDLE 0'', senders = [(''mic'', Audio)], closed = False\<rparr>,
   whatsappStream = Some [(''wa'', Audio)],
   browserOfferSdp = JStr ''v=0'', whatsappOfferSdp = JStr ''a=fingerprint:sha-256 AB'',
   browserSocket = Some ''sock1'', currentCallId = JStr ''abc123'', callInProgress = False,
   trace = [Emit ''sock1'' ''browser-answer'' [JStr ''v=0''],
            Emit ''sock1'' ''browser-candidate''
              [JObj [(''candidate'', JStr ''candidate:1 1 udp 2122260223 192.0.2.1 54321 typ host''),
                     (''sdpMid'', JStr ''0''), (''sdpMLineIndex'', JNum 0)]],
            ApiAnswer (JStr ''abc123'') (''a=group:BUNDLE 0'' @ crlf @ ''a=ice-options:trickle'') ''pre_accept'',
            ConsoleError ''Pre-accept failed. Aborting accept step.'',
            SetTimeout ClearOffers 5000]\<rparr>"
  by (simp add: aborted_def ready_def initial_def okEnv_def failEnv_def initiateWebRTCBridge_def bridgeTry_def
      setupBrowserPc_def setupWhatsappPc_def storeStream_def forwardTracks_def answerLegs_def Let_def effect_def
      effects_def candidateOut_def
      RTCPeerConnection_def modifiedWhatsappSdp_def finalWaSdp_def getAudioTracks_def addTracks_def setLocal_def crlf_def lineTerminator_def)

section \<open>The flag and the legs after a bridge run\<close>

lemma bridge_failure_resets:
  "\<not> callInProgress s \<Longrightarrow> \<not> preAcceptSuccess env \<or> isl (bridgeTry env (s\<lparr>callInProgress := True\<rparr>))
     \<Longrightarrow> \<not> callInProgress (initiateWebRTCBridge env s)"
  by (auto simp: initiateWebRTCBridge_def effect_def split: sum.splits dest: bridgeTry_flag)

text \<open>The browser leg a bridge run creates is never closed by that run, whether the run succeeds or fails.\<close>

lemma setupBrowserPc_open:
  "setupBrowserPc env s = Inr s' \<or> setupBrowserPc env s = Inl s' \<Longrightarrow> legOpen (browserPc s')"
  by (auto simp: setupBrowserPc_def Let_def legOpen_def RTCPeerConnection_def split: if_splits)

lemma setupWhatsappPc_open:
  "setupWhatsappPc env s = Inr s' \<or> setupWhatsappPc env s = Inl s' \<Longrightarrow> browserPc s' = browserPc s"
  by (auto simp: setupWhatsappPc_def storeStream_def Let_def split: if_splits json.splits option.splits)

lemma forwardTracks_open:
  "forwardTracks env s = Inr s' \<or> forwardTracks env s = Inl s' \<Longrightarrow> legOpen (browserPc s') = legOpen (browserPc s)"
  by (auto simp: forwardTracks_def Let_def legOpen_def addTracks_def split: if_splits option.splits)

lemma answerLegs_open:
  "answerLegs env s = Inr s' \<or> answerLegs env s = Inl s' \<Longrightarrow> legOpen (browserPc s') = legOpen (browserPc s)"
  by (auto simp: answerLegs_def Let_def legOpen_def setLocal_def effect_def effects_def split: if_splits option.splits)

lemma bridgeTry_open:
  assumes "bridgeTry env s = Inr s' \<or> bridgeTry env s = Inl s'"
  shows "legOpen (browserPc s')"
proof -
  consider (a) "setupBrowserPc env s = Inl s'"
    | (b) s1 where "setupBrowserPc env s = Inr s1" "setupWhatsappPc env s1 = Inl s'"
    | (c) s1 s2 where "setupBrowserPc env s = Inr s1" "setupWhatsappPc env s1 = Inr s2"
        "forwardTracks env s2 = Inl s'"
    | (d) s1 s2 s3 where "setupBrowserPc env s = Inr s1" "setupWhatsappPc env s1 = Inr s2"
        "forwardTracks env s2 = Inr s3" "answerLegs env s3 = Inl s' \<or> answerLegs env s3 = Inr s'"
    using assms by (auto simp: bridgeTry_def split: sum.splits)
  then show ?thesis
  proof cases
    case a then show ?thesis using setupBrowserPc_open[of env s s'] by simp
  next
    case b then show ?thesis
      using setupBrowserPc_open[of env s s1] setupWhatsappPc_open[of env s1 s'] by simp
  next
    case c then show ?thesis
      using setupBrowserPc_open[of env s s1] setupWhatsappPc_open[of env s1 s2]
        forwardTracks_open[of env s2 s'] by simp
  next
    case d then show ?thesis
      using setupBrowserPc_open[of env s s1] setupWhatsappPc_open[of env s1 s2]
        forwardTracks_open[of env s2 s3] answerLegs_open[of env s3 s'] by auto
  qed
qed

lemma bridge_leaves_leg_open:
  assumes "\<not> callInProgress s" "truthy (browserOfferSdp s)" "truthy (whatsappOfferSdp s)" "browserSocket s \<noteq> None"
  shows "legOpen (browserPc (initiateWebRTCBridge env s))"
proof (cases "bridgeTry env (s\<lparr>callInProgress := True\<rparr>)")
  case (Inl e)
  with assms bridgeTry_open[of env "s\<lparr>callInProgress := True\<rparr>" e] show ?thesis
    by (auto simp: initiateWebRTCBridge_def effect_def)
next
  case (Inr s')
  with assms bridgeTry_open[of env "s\<lparr>callInProgress := True\<rparr>" s'] show ?thesis
    by (auto simp: initiateWebRTCBridge_def)
qed

section \<open>Properties of the webhook and of the outbound call\<close>

lemma responses_append: "responses (xs @ ys) = responses xs @ responses ys"
  by (induction xs rule: responses.induct) simp_all

lemma responses_candidateOut: "responses (candidateOut sock cs) = []"
  by (induction cs) (simp_all add: candidateOut_def)

lemma emitted_append: "emitted name (xs @ ys) = (emitted name xs \<or> emitted name ys)"
  by (induction name xs rule: emitted.induct) auto

lemma emitted_candidateOut:
  "emitted name (candidateOut sock cs) = (name = ''browser-candidate'' \<and> cs \<noteq> [])"
  by (induction cs) (auto simp: candidateOut_def)

lemma answered_append: "answered action (xs @ ys) = (answered action xs \<or> answered action ys)"
  by (induction action xs rule: answered.induct) auto

lemma answered_candidateOut: "\<not> answered action (candidateOut sock cs)"
  by (induction cs) (simp_all add: candidateOut_def)

lemma acceptScheduled_append: "acceptScheduled (xs @ ys) = (acceptScheduled xs \<or> acceptScheduled ys)"
  by (induction xs rule: acceptScheduled.induct) auto

lemma acceptScheduled_candidateOut: "\<not> acceptScheduled (candidateOut sock cs)"
  by (induction cs) (simp_all add: candidateOut_def)

lemma candidateOut_only_emits:
  "x \<in> set (candidateOut sock cs) \<Longrightarrow> \<exists>c. x = Emit sock ''browser-candidate'' [c]"
  by (auto simp: candidateOut_def)

lemma bridge_responses: "responses (new_out s (initiateWebRTCBridge env s)) = []"
  using bridge_out[of s env]
  by (auto simp: preAcceptOut_def responses_append responses_candidateOut)

lemma callBranch_responses:
  "callBranch wenv val s = (c, s') \<Longrightarrow>
     \<exists>xs. trace s' = trace s @ xs \<and> responses xs = (if c = Returned then [200] else [])"
  using bridge_extends[of "bridge wenv"] bridge_responses[of _ "bridge wenv"]
  by (auto simp: callBranch_def Let_def effect_def split: if_splits)

lemma permissionBranch_responses:
  "permissionBranch val s = (c, s') \<Longrightarrow>
     \<exists>xs. trace s' = trace s @ xs \<and> responses xs = (if c = Returned then [200] else [])"
  by (auto simp: permissionBranch_def toBrowserSocket_def Let_def effect_def split: if_splits option.splits)

lemma statusBranch_responses:
  "statusBranch val s = (c, s') \<Longrightarrow>
     \<exists>xs. trace s' = trace s @ xs \<and> responses xs = (if c = Returned then [200] else [])"
  by (auto simp: statusBranch_def Let_def effect_def split: if_splits)

lemma messageBranch_responses:
  "messageBranch val s = (c, s') \<Longrightarrow>
     \<exists>xs. trace s' = trace s @ xs \<and> responses xs = (if c = Returned then [200] else [])"
  by (auto simp: messageBranch_def Let_def effect_def split: if_splits option.splits)

lemma callEventsTry_responses:
  "callEventsTry wenv body s = (c, s') \<Longrightarrow>
     \<exists>xs. trace s' = trace s @ xs \<and> responses xs = (if c = Returned then [200] else [])"
  unfolding callEventsTry_def Let_def
  by (auto split: if_splits dest: callBranch_responses permissionBranch_responses
      statusBranch_responses messageBranch_responses)

lemma throwing: "callEventsTry okWebhook throwingBody initial = (Thrown TypeError, initial)"
  by (simp add: callEventsTry_def throwingBody_def opt_prop_def nonEmpty_def permissionBranch_def Let_def)

lemma checkCallPermission_out:
  "checkCallPermission cenv n s = (p, s') \<Longrightarrow> \<not> hasPermission p \<Longrightarrow>
     s' = s \<or> s' = effect (ApiConnect Probe n) s"
  by (auto simp: checkCallPermission_def Let_def split: if_splits api_reply.splits)

lemma requestPermission_out:
  "\<exists>name args. requestPermission cenv sock n s =
      s\<lparr>trace := trace s @ [ApiPermissionRequest n, Emit sock name args]\<rparr>
      \<and> (name = ''permission-request-sent'' \<or> name = ''permission-request-failed'')"
  by (auto simp: requestPermission_def sendCallPermissionRequest_def Let_def effect_def failed_def
      split: api_reply.splits prod.splits)

lemma bridge_runs:
  "\<not> callInProgress s \<Longrightarrow> truthy (browserOfferSdp s) \<Longrightarrow> truthy (whatsappOfferSdp s) \<Longrightarrow>
     browserSocket s \<noteq> None \<Longrightarrow> initiateWebRTCBridge env s = bridgeRun env s"
  by (auto simp: initiateWebRTCBridge_def bridgeRun_def)


lemma first_b:
  assumes "\<not> truthy (whatsappOfferSdp s)"
  shows "browser_offer env sock (JStr sdp) callId s =
      (if truthy callId then s\<lparr>browserOfferSdp := JStr sdp, browserSocket := Some sock, currentCallId := callId\<rparr>
       else s\<lparr>browserOfferSdp := JStr sdp, browserSocket := Some sock\<rparr>)"
  using assms by (simp add: browser_offer_def Let_def bridge_guard_fail)

lemma first_w:
  assumes "\<not> truthy (browserOfferSdp s)" "cid \<noteq> []"
  shows "call_events wenv (connectEvent cid (JStr wsdp)) s
      = s\<lparr>currentCallId := JStr cid, whatsappOfferSdp := JStr wsdp, trace := trace s @ [Respond 200]\<rparr>"
  using assms by (simp add: call_events_connect bridge_guard_fail effect_def)

lemma second_w:
  assumes "cid \<noteq> []" "\<not> truthy callId \<or> callId = JStr cid"
  shows "call_events wenv (connectEvent cid (JStr wsdp))
      (if truthy callId then s\<lparr>browserOfferSdp := JStr sdp, browserSocket := Some sock, currentCallId := callId\<rparr>
       else s\<lparr>browserOfferSdp := JStr sdp, browserSocket := Some sock\<rparr>)
      = effect (Respond 200) (initiateWebRTCBridge (bridge wenv) (bothOffers sock sdp cid wsdp s))"
proof (cases "truthy callId")
  case True
  with assms have c: "callId = JStr cid" by simp
  show ?thesis using assms(1) by (simp add: c call_events_connect bothOffers_def)
next
  case False
  then show ?thesis using assms(1) by (simp add: call_events_connect bothOffers_def)
qed

lemma second_b:
  assumes "\<not> truthy callId \<or> callId = JStr cid" "sdp \<noteq> []"
  shows "browser_offer env sock (JStr sdp) callId
       (s\<lparr>currentCallId := JStr cid, whatsappOfferSdp := JStr wsdp, trace := trace s @ [Respond 200]\<rparr>)
      = initiateWebRTCBridge env ((bothOffers sock sdp cid wsdp s)\<lparr>trace := trace s @ [Respond 200]\<rparr>)"
proof -
  let ?s1 = "s\<lparr>currentCallId := JStr cid, whatsappOfferSdp := JStr wsdp, trace := trace s @ [Respond 200]\<rparr>"
  let ?s2 = "?s1\<lparr>browserOfferSdp := JStr sdp, browserSocket := Some sock\<rparr>"
  have "(if truthy callId then ?s2\<lparr>currentCallId := callId\<rparr> else ?s2)
       = (bothOffers sock sdp cid wsdp s)\<lparr>trace := trace s @ [Respond 200]\<rparr>"
    using assms(1) by (cases s) (auto simp: bothOffers_def)
  then show ?thesis
    unfolding browser_offer_def Let_def by simp
qed


lemma new_out_effect: "trace r = trace s @ xs \<Longrightarrow> new_out s (effect x r) = xs @ [x]"
  by (simp add: new_out_def effect_def)

lemma new_out_update: "new_out s (r\<lparr>trace := trace s @ xs\<rparr>) = xs"
  by (simp add: new_out_def)

lemma setupBrowserPc_callId:
  "setupBrowserPc env s = Inr s' \<or> setupBrowserPc env s = Inl s' \<Longrightarrow> currentCallId s' = currentCallId s"
  by (auto simp: setupBrowserPc_def Let_def split: if_splits)

lemma setupWhatsappPc_callId:
  "setupWhatsappPc env s = Inr s' \<or> setupWhatsappPc env s = Inl s' \<Longrightarrow> currentCallId s' = currentCallId s"
  by (auto simp: setupWhatsappPc_def storeStream_def Let_def split: if_splits json.splits option.splits)

lemma forwardTracks_callId:
  "forwardTracks env s = Inr s' \<or> forwardTracks env s = Inl s' \<Longrightarrow> currentCallId s' = currentCallId s"
  by (auto simp: forwardTracks_def Let_def split: if_splits option.splits)

lemma answerLegs_callId:
  "answerLegs env s = Inr s' \<or> answerLegs env s = Inl s' \<Longrightarrow> currentCallId s' = currentCallId s"
  by (auto simp: answerLegs_def Let_def effect_def effects_def split: if_splits option.splits)

lemma bridgeTry_callId:
  assumes "bridgeTry env s = Inr s' \<or> bridgeTry env s = Inl s'"
  shows "currentCallId s' = currentCallId s"
proof -
  consider (a) "setupBrowserPc env s = Inl s'"
    | (b) s1 where "setupBrowserPc env s = Inr s1" "setupWhatsappPc env s1 = Inl s'"
    | (c) s1 s2 where "setupBrowserPc env s = Inr s1" "setupWhatsappPc env s1 = Inr s2"
        "forwardTracks env s2 = Inl s'"
    | (d) s1 s2 s3 where "setupBrowserPc env s = Inr s1" "setupWhatsappPc env s1 = Inr s2"
        "forwardTracks env s2 = Inr s3" "answerLegs env s3 = Inl s' \<or> answerLegs env s3 = Inr s'"
    using assms by (auto simp: bridgeTry_def split: sum.splits)
  then show ?thesis
  proof cases
    case a then show ?thesis using setupBrowserPc_callId[of env s s'] by simp
  next
    case b then show ?thesis
      using setupBrowserPc_callId[of env s s1] setupWhatsappPc_callId[of env s1 s'] by simp
  next
    case c then show ?thesis
      using setupBrowserPc_callId[of env s s1] setupWhatsappPc_callId[of env s1 s2]
        forwardTracks_callId[of env s2 s'] by simp
  next
    case d then show ?thesis
      using setupBrowserPc_callId[of env s s1] setupWhatsappPc_callId[of env s1 s2]
        forwardTracks_callId[of env s2 s3] answerLegs_callId[of env s3 s'] by auto
  qed
qed

lemma bridge_callId: "currentCallId (initiateWebRTCBridge env s) = currentCallId s"
  using bridgeTry_callId[of env "s\<lparr>callInProgress := True\<rparr>"]
  by (auto simp: initiateWebRTCBridge_def effect_def split: sum.splits)

section \<open>Properties of the description normalisation\<close>

text \<open>
  An offer that already has the attribute is kept, and an offer with a fingerprint line
  gets the attribute.
\<close>

lemma str_includes_Cons: "str_includes cs p \<Longrightarrow> str_includes (c # cs) p"
  by simp

lemma str_includes_append: "str_includes ys p \<Longrightarrow> str_includes (xs @ ys) p"
  by (induction xs) (simp_all)

lemma startsWith_append: "startsWith (p @ ys) p"
  by (induction p) simp_all

lemma str_includes_Nil: "str_includes s []"
  by (cases s) simp_all

lemma str_includes_start: "str_includes (p @ ys) p"
proof (cases p)
  case Nil
  then show ?thesis by (simp add: str_includes_Nil)
next
  case (Cons a as)
  have "startsWith ((a # as) @ ys) (a # as)" by (rule startsWith_append)
  then show ?thesis by (simp add: Cons)
qed

lemma replace_fingerprint_adds:
  "str_includes s ''a=fingerprint:'' \<Longrightarrow> str_includes (replace_fingerprint s) ''a=setup:actpass''"
proof (induction s rule: replace_fingerprint.induct)
  case 1
  then show ?case by simp
next
  case (2 c cs)
  show ?case
  proof (cases "startsWith (c # cs) ''a=fingerprint:''")
    case True
    have "str_includes (''a=setup:actpass'' @ replace_fingerprint (dropWhile (\<lambda>x. \<not> lineTerminator x) (c # cs))) ''a=setup:actpass''"
      by (rule str_includes_start)
    then have "str_includes ((takeWhile (\<lambda>x. \<not> lineTerminator x) (c # cs) @ crlf) @ ''a=setup:actpass'' @ replace_fingerprint (dropWhile (\<lambda>x. \<not> lineTerminator x) (c # cs))) ''a=setup:actpass''"
      by (rule str_includes_append)
    with True show ?thesis by (simp del: startsWith.simps str_includes.simps takeWhile.simps dropWhile.simps)
  next
    case False
    from "2.prems" have "startsWith (c # cs) ''a=fingerprint:'' \<or> str_includes cs ''a=fingerprint:''"
      by (simp only: str_includes.simps)
    with False have inc: "str_includes cs ''a=fingerprint:''" by blast
    from "2.IH"(2)[OF False inc] have "str_includes (replace_fingerprint cs) ''a=setup:actpass''" .
    then have "str_includes (c # replace_fingerprint cs) ''a=setup:actpass''" by (rule str_includes_Cons)
    with False show ?thesis by (simp del: startsWith.simps str_includes.simps)
  qed
qed

lemma modifiedWhatsappSdp_present:
  "str_includes sdp ''a=setup:actpass'' \<Longrightarrow> modifiedWhatsappSdp sdp = sdp"
  by (simp add: modifiedWhatsappSdp_def)

lemma modifiedWhatsappSdp_fingerprint:
  "str_includes sdp ''a=fingerprint:'' \<Longrightarrow> str_includes (modifiedWhatsappSdp sdp) ''a=setup:actpass''"
  using replace_fingerprint_adds[of sdp] by (simp add: modifiedWhatsappSdp_def)

lemma noFingerprint_same: "modifiedWhatsappSdp noFingerprintOffer = noFingerprintOffer"
  by (simp add: modifiedWhatsappSdp_def noFingerprintOffer_def crlf_def)

lemma noFingerprint_applied:
  "map_option remoteDescription
      (whatsappPc (initiateWebRTCBridge okEnv (ready\<lparr>whatsappOfferSdp := JStr noFingerprintOffer\<rparr>)))
     = Some (JStr noFingerprintOffer)"
proof -
  have ne: "noFingerprintOffer \<noteq> []" by (simp add: noFingerprintOffer_def)
  show ?thesis
    by (simp add: ne noFingerprint_same ready_def initial_def okEnv_def initiateWebRTCBridge_def bridgeTry_def
      setupBrowserPc_def setupWhatsappPc_def storeStream_def forwardTracks_def answerLegs_def Let_def effect_def
      effects_def candidateOut_def
      RTCPeerConnection_def finalWaSdp_def getAudioTracks_def addTracks_def setLocal_def crlf_def)
qed

text \<open>\<^verbatim>\<open>reject-call\<close> ends in the ReferenceError and leaves every variable, the flag included, as it was.\<close>

lemma reject_call_keeps:
  "(reject_call sock callId s)\<lparr>trace := trace s\<rparr> = s
   \<and> new_out s (reject_call sock callId s) = [Unhandled ReferenceError]"
  by (simp add: reject_call_def effect_def new_out_def)

text \<open>The permission check grants permission only when the probe's response has \<^verbatim>\<open>success === true\<close>.\<close>

lemma checkCallPermission_status:
  "checkCallPermission cenv n s = (p, s') \<Longrightarrow>
     hasPermission p = (status p = ''granted'')
     \<and> hasPermission p = (probeSetupOk cenv \<and> (\<exists>d. probeReply cenv = Response d \<and> opt_prop d ''success'' = JBool True))
     \<and> status p \<in> {''granted'', ''denied'', ''unknown'', ''error''}"
  by (auto simp: checkCallPermission_def Let_def split: if_splits api_reply.splits)

section \<open>Properties of the answer formatting\<close>


lemma startsWith_extend: "startsWith r t \<Longrightarrow> startsWith (r @ post) t"
  by (induction r t rule: startsWith.induct) simp_all

lemma str_includes_extend: "str_includes r t \<Longrightarrow> str_includes (r @ post) t"
proof (induction r)
  case Nil
  then show ?case by (simp add: str_includes_Nil)
next
  case (Cons c cs)
  from Cons.prems have "startsWith (c # cs) t \<or> str_includes cs t" by (simp only: str_includes.simps)
  then show ?case
  proof
    assume "startsWith (c # cs) t"
    then have "startsWith ((c # cs) @ post) t" by (rule startsWith_extend)
    then show ?thesis by simp
  next
    assume "str_includes cs t"
    then have "str_includes (cs @ post) t" by (rule Cons.IH)
    then show ?thesis by simp
  qed
qed

























section \<open>The claims\<close>

text \<open>
  C4. The in-progress flag goes from false to true only when the browser offer and the
  provider offer are non-empty and the browser socket is set. A call of
  \<open>initiateWebRTCBridge\<close> in which one of the three is missing changes nothing: the flag
  stays false and no leg is created.
\<close>

theorem bridge_start_preconditions:
  "\<not> callInProgress s \<Longrightarrow>
     (callInProgress (initiateWebRTCBridge env s) \<longrightarrow>
        truthy (browserOfferSdp s) \<and> truthy (whatsappOfferSdp s) \<and> browserSocket s \<noteq> None)
     \<and> (\<not> truthy (browserOfferSdp s) \<or> \<not> truthy (whatsappOfferSdp s) \<or> browserSocket s = None \<longrightarrow>
          initiateWebRTCBridge env s = s
          \<and> \<not> callInProgress (initiateWebRTCBridge env s)
          \<and> browserPc (initiateWebRTCBridge env s) = browserPc s
          \<and> whatsappPc (initiateWebRTCBridge env s) = whatsappPc s)"
proof -
  assume idle: "\<not> callInProgress s"
  have keep: "\<not> truthy (browserOfferSdp s) \<or> \<not> truthy (whatsappOfferSdp s) \<or> browserSocket s = None
      \<Longrightarrow> initiateWebRTCBridge env s = s"
    by (rule bridge_guard_fail)
  show ?thesis
  proof (cases "\<not> truthy (browserOfferSdp s) \<or> \<not> truthy (whatsappOfferSdp s) \<or> browserSocket s = None")
    case True
    with keep[OF True] idle show ?thesis by simp
  next
    case False
    then show ?thesis by blast
  qed
qed

theorem bridge_start_preconditions_witness:
  "\<not> callInProgress (initial\<lparr>browserOfferSdp := JStr ''v=0'', browserSocket := Some ''sock1''\<rparr>)
   \<and> \<not> truthy (whatsappOfferSdp (initial\<lparr>browserOfferSdp := JStr ''v=0'', browserSocket := Some ''sock1''\<rparr>))
   \<and> initiateWebRTCBridge okEnv (initial\<lparr>browserOfferSdp := JStr ''v=0'', browserSocket := Some ''sock1''\<rparr>)
       = initial\<lparr>browserOfferSdp := JStr ''v=0'', browserSocket := Some ''sock1''\<rparr>
   \<and> browserPc (initiateWebRTCBridge okEnv (initial\<lparr>browserOfferSdp := JStr ''v=0'', browserSocket := Some ''sock1''\<rparr>)) = None"
  using bridge_start_preconditions[of "initial\<lparr>browserOfferSdp := JStr ''v=0'', browserSocket := Some ''sock1''\<rparr>" okEnv]
  by (simp add: initial_def)

text \<open>
  C8. The \<^verbatim>\<open>start-browser-timer\<close> signal is sent exactly when the \<^verbatim>\<open>accept\<close> request
  succeeds and a browser socket is stored; the bridge run itself never sends it. When
  \<^verbatim>\<open>accept\<close> fails the failure is written to the console and nothing else happens: both
  legs, the flag and every other variable are as before.
\<close>

theorem accept_timer_signal:
  "emitted ''start-browser-timer'' (new_out s (acceptTimer acceptSuccess sdp s))
      = (acceptSuccess \<and> browserSocket s \<noteq> None)
   \<and> \<not> emitted ''start-browser-timer'' (new_out s (initiateWebRTCBridge env s))
   \<and> (\<not> acceptSuccess \<longrightarrow>
        new_out s (acceptTimer acceptSuccess sdp s)
          = [ApiAnswer (currentCallId s) sdp ''accept'', ConsoleError ''Accept failed''])
   \<and> browserPc (acceptTimer acceptSuccess sdp s) = browserPc s
   \<and> whatsappPc (acceptTimer acceptSuccess sdp s) = whatsappPc s
   \<and> callInProgress (acceptTimer acceptSuccess sdp s) = callInProgress s
   \<and> (acceptTimer acceptSuccess sdp s)\<lparr>trace := trace s\<rparr> = s"
proof -
  have a: "\<not> emitted ''start-browser-timer'' (new_out s (initiateWebRTCBridge env s))"
    using bridge_out[of s env] by (auto simp: preAcceptOut_def emitted_append emitted_candidateOut)
  have b: "emitted ''start-browser-timer'' (new_out s (acceptTimer acceptSuccess sdp s))
      = (acceptSuccess \<and> browserSocket s \<noteq> None)"
    by (auto simp: acceptTimer_def new_out_def effect_def Let_def split: option.splits)
  have c: "\<not> acceptSuccess \<longrightarrow>
        new_out s (acceptTimer acceptSuccess sdp s)
          = [ApiAnswer (currentCallId s) sdp ''accept'', ConsoleError ''Accept failed'']"
    by (simp add: acceptTimer_def new_out_def effect_def Let_def)
  have d: "(acceptTimer acceptSuccess sdp s)\<lparr>trace := trace s\<rparr> = s"
    by (simp add: acceptTimer_def effect_def Let_def split: option.splits)
  have e: "browserPc (acceptTimer acceptSuccess sdp s) = browserPc s
   \<and> whatsappPc (acceptTimer acceptSuccess sdp s) = whatsappPc s
   \<and> callInProgress (acceptTimer acceptSuccess sdp s) = callInProgress s"
    by (simp add: acceptTimer_def effect_def Let_def split: option.splits)
  from a b c d e show ?thesis by blast
qed

theorem accept_timer_signal_witness:
  "\<not> emitted ''start-browser-timer'' (new_out bridged (acceptTimer False ''v=0'' bridged))
   \<and> new_out bridged (acceptTimer False ''v=0'' bridged)
        = [ApiAnswer (JStr ''abc123'') ''v=0'' ''accept'', ConsoleError ''Accept failed'']
   \<and> callInProgress (acceptTimer False ''v=0'' bridged)
   \<and> legOpen (browserPc (acceptTimer False ''v=0'' bridged))
   \<and> legOpen (whatsappPc (acceptTimer False ''v=0'' bridged))
   \<and> emitted ''start-browser-timer'' (new_out bridged (acceptTimer True ''v=0'' bridged))"
  using accept_timer_signal[of bridged False "''v=0''" okEnv] accept_timer_signal[of bridged True "''v=0''" okEnv]
  by (simp add: bridged_eval legOpen_def)

text \<open>
  C1, as the claim states it, fails: after a successful bridge run the browser's
  \<^verbatim>\<open>terminate-call\<close> resets the flag, and both leg handles are still open.
\<close>

theorem terminal_events_counterexample:
  "callInProgress bridged
   \<and> \<not> callInProgress (terminate_call ''sock1'' (JStr ''abc123'') bridged)
   \<and> legOpen (browserPc (terminate_call ''sock1'' (JStr ''abc123'') bridged))
   \<and> legOpen (whatsappPc (terminate_call ''sock1'' (JStr ''abc123'') bridged))"
  by (simp add: bridged_eval terminate_call_def terminateCall_def effect_def legOpen_def)

text \<open>
  C1, amended. The browser's \<^verbatim>\<open>terminate-call\<close>, the webhook's \<^verbatim>\<open>terminate\<close> event, the
  disconnect of the socket stored as the browser socket, and a bridge run that throws or
  whose \<^verbatim>\<open>pre_accept\<close> fails each leave the in-progress flag false. None of them closes a
  leg: the three terminal events leave both peer connections as they were, and the browser
  leg created by a bridge run is open when the run ends, also when it failed.
\<close>

theorem terminal_events_reset_flag:
  "\<not> callInProgress (terminate_call sock callId s)
   \<and> browserPc (terminate_call sock callId s) = browserPc s
   \<and> whatsappPc (terminate_call sock callId s) = whatsappPc s
   \<and> (cid \<noteq> [] \<longrightarrow>
        \<not> callInProgress (call_events wenv (terminateEvent cid) s)
        \<and> browserPc (call_events wenv (terminateEvent cid) s) = browserPc s
        \<and> whatsappPc (call_events wenv (terminateEvent cid) s) = whatsappPc s)
   \<and> (browserSocket s = Some sock \<longrightarrow> \<not> callInProgress (disconnect sock s))
   \<and> browserPc (disconnect sock s) = browserPc s
   \<and> whatsappPc (disconnect sock s) = whatsappPc s
   \<and> (\<not> callInProgress s \<and> (\<not> preAcceptSuccess env \<or> isl (bridgeTry env (s\<lparr>callInProgress := True\<rparr>)))
        \<longrightarrow> \<not> callInProgress (initiateWebRTCBridge env s))
   \<and> (\<not> callInProgress s \<and> truthy (browserOfferSdp s) \<and> truthy (whatsappOfferSdp s)
          \<and> browserSocket s \<noteq> None
        \<longrightarrow> legOpen (browserPc (initiateWebRTCBridge env s)))"
  using bridge_failure_resets[of s env] bridge_leaves_leg_open[of s env]
  by (simp add: terminate_call_def terminateCall_def effect_def call_events_terminate disconnect_def)

theorem terminal_events_reset_flag_witness:
  "callInProgress bridged
   \<and> \<not> callInProgress (terminate_call ''sock1'' JNull bridged)
   \<and> \<not> callInProgress (call_events okWebhook (terminateEvent ''abc123'') bridged)
   \<and> browserSocket bridged = Some ''sock1'' \<and> \<not> callInProgress (disconnect ''sock1'' bridged)
   \<and> \<not> callInProgress ready \<and> \<not> preAcceptSuccess failEnv
   \<and> \<not> callInProgress (initiateWebRTCBridge failEnv ready)"
  using terminal_events_reset_flag[of "''sock1''" JNull bridged "''abc123''" okWebhook okEnv]
    terminal_events_reset_flag[of "''sock1''" JNull ready "''abc123''" okWebhook failEnv]
  by (simp add: bridged_eval ready_def initial_def failEnv_def)

text \<open>
  C2, as the claim states it, fails: a \<^verbatim>\<open>connect\<close> webhook for another call arriving
  while a call is in progress replaces the stored call id and the stored provider offer.
\<close>

theorem duplicate_connect_counterexample:
  "callInProgress bridged
   \<and> currentCallId bridged = JStr ''abc123''
   \<and> currentCallId (call_events okWebhook (connectEvent ''xyz789'' (JStr ''v=0'')) bridged) = JStr ''xyz789''
   \<and> whatsappOfferSdp bridged = JStr ''a=fingerprint:sha-256 AB''
   \<and> whatsappOfferSdp (call_events okWebhook (connectEvent ''xyz789'' (JStr ''v=0'')) bridged) = JStr ''v=0''"
  by (simp add: bridged_eval call_events_connect bridge_in_progress effect_def)

text \<open>
  C2, amended. While a call is in progress, a \<^verbatim>\<open>connect\<close> webhook starts no second bridge
  run: the flag, both legs, the browser offer and the browser socket are unchanged and the
  only effect is the status 200. The stored call id and the stored provider offer are
  overwritten with those of the event.
\<close>

theorem duplicate_connect:
  "callInProgress s \<Longrightarrow> cid \<noteq> [] \<Longrightarrow>
     call_events wenv (connectEvent cid sdp) s
       = s\<lparr>currentCallId := JStr cid, whatsappOfferSdp := sdp, trace := trace s @ [Respond 200]\<rparr>"
  by (simp add: call_events_connect bridge_in_progress effect_def)

theorem duplicate_connect_witness:
  "callInProgress bridged \<and> ''xyz789'' \<noteq> []
   \<and> call_events okWebhook (connectEvent ''xyz789'' (JStr ''v=0'')) bridged
       = bridged\<lparr>currentCallId := JStr ''xyz789'', whatsappOfferSdp := JStr ''v=0'',
                  trace := trace bridged @ [Respond 200]\<rparr>
   \<and> new_out bridged (call_events okWebhook (connectEvent ''xyz789'' (JStr ''v=0'')) bridged) = [Respond 200]"
  using duplicate_connect[of bridged "''xyz789''" okWebhook "JStr ''v=0''"]
  by (simp add: bridged_eval new_out_def)

text \<open>
  C3, as the claim states it, fails: in a bridge run whose \<^verbatim>\<open>pre_accept\<close> fails, no
  \<^verbatim>\<open>call-failed\<close> event is emitted.
\<close>

theorem pre_accept_failure_counterexample:
  "\<not> preAcceptSuccess failEnv \<and> answered ''pre_accept'' (trace aborted)
   \<and> \<not> emitted ''call-failed'' (trace aborted)"
  by (simp add: aborted_eval failEnv_def okEnv_def)

text \<open>
  C3, amended. In every bridge run in which the \<^verbatim>\<open>pre_accept\<close> request was sent and
  reported failure, the browser answer was emitted, the failure is written to the console,
  no \<^verbatim>\<open>accept\<close> request is sent and no accept timer is started, the in-progress flag is
  false afterwards, and no \<^verbatim>\<open>call-failed\<close> event is emitted.
\<close>

theorem pre_accept_failure:
  assumes "\<not> preAcceptSuccess env"
    and "ApiAnswer c sdp ''pre_accept'' \<in> set (new_out s (initiateWebRTCBridge env s))"
  shows "\<not> callInProgress (initiateWebRTCBridge env s)
     \<and> emitted ''browser-answer'' (new_out s (initiateWebRTCBridge env s))
     \<and> answered ''pre_accept'' (new_out s (initiateWebRTCBridge env s))
     \<and> ConsoleError ''Pre-accept failed. Aborting accept step.''
          \<in> set (new_out s (initiateWebRTCBridge env s))
     \<and> \<not> answered ''accept'' (new_out s (initiateWebRTCBridge env s))
     \<and> \<not> acceptScheduled (new_out s (initiateWebRTCBridge env s))
     \<and> \<not> emitted ''call-failed'' (new_out s (initiateWebRTCBridge env s))"
proof -
  let ?out = "new_out s (initiateWebRTCBridge env s)"
  from bridge_out[of s env] consider
      (none) "?out = []"
    | (run) sock ba c' wa where
        "?out = Emit sock ''browser-answer'' [JStr ba] # candidateOut sock (browserCandidates env) @
           ApiAnswer c' (finalWaSdp wa) ''pre_accept'' # candidateOut sock (lateCandidates env) @
           [preAcceptOut env wa, SetTimeout ClearOffers 5000]"
        "callInProgress (initiateWebRTCBridge env s) = preAcceptSuccess env"
    | (thrown) "?out = [ConsoleError ''Error in WebRTC bridge:'']"
    | (thrown') sock ba where
        "?out = Emit sock ''browser-answer'' [JStr ba] # candidateOut sock (browserCandidates env) @
           [ConsoleError ''Error in WebRTC bridge:'']"
    by blast
  then show ?thesis
  proof cases
    case none
    with assms(2) show ?thesis by simp
  next
    case run
    with assms(1) show ?thesis
      by (simp add: preAcceptOut_def emitted_append emitted_candidateOut answered_append
          answered_candidateOut acceptScheduled_append acceptScheduled_candidateOut)
  next
    case thrown
    with assms(2) show ?thesis by simp
  next
    case thrown'
    with assms(2) candidateOut_only_emits[of "ApiAnswer c sdp ''pre_accept''" sock "browserCandidates env"]
    show ?thesis by auto
  qed
qed

theorem pre_accept_failure_witness:
  "\<not> preAcceptSuccess failEnv
   \<and> ApiAnswer (JStr ''abc123'') (''a=group:BUNDLE 0'' @ crlf @ ''a=ice-options:trickle'') ''pre_accept''
        \<in> set (new_out ready (initiateWebRTCBridge failEnv ready))
   \<and> emitted ''browser-candidate'' (new_out ready (initiateWebRTCBridge failEnv ready))
   \<and> \<not> callInProgress (initiateWebRTCBridge failEnv ready)
   \<and> emitted ''browser-answer'' (new_out ready (initiateWebRTCBridge failEnv ready))
   \<and> \<not> answered ''accept'' (new_out ready (initiateWebRTCBridge failEnv ready))
   \<and> \<not> acceptScheduled (new_out ready (initiateWebRTCBridge failEnv ready))
   \<and> \<not> emitted ''call-failed'' (new_out ready (initiateWebRTCBridge failEnv ready))"
proof -
  have a: "\<not> preAcceptSuccess failEnv" by (simp add: failEnv_def)
  have b: "ApiAnswer (JStr ''abc123'') (''a=group:BUNDLE 0'' @ crlf @ ''a=ice-options:trickle'') ''pre_accept''
        \<in> set (new_out ready (initiateWebRTCBridge failEnv ready))"
    using aborted_eval by (simp add: aborted_def new_out_def ready_def initial_def)
  have c: "emitted ''browser-candidate'' (new_out ready (initiateWebRTCBridge failEnv ready))"
    using aborted_eval by (simp add: aborted_def new_out_def ready_def initial_def)
  from pre_accept_failure[OF a b] a b c show ?thesis by simp
qed

text \<open>
  C7, as the claim states it, fails: when the browser offer carries a call id other than
  the webhook's, the stored call id after both events is that of the event that came last.
\<close>

theorem offer_order_counterexample:
  "currentCallId (call_events okWebhook (connectEvent ''abc123'' (JStr ''a=fingerprint:sha-256 AB''))
       (browser_offer okEnv ''sock1'' (JStr ''v=0'') (JStr ''zzz'') initial)) = JStr ''abc123''
   \<and> currentCallId (browser_offer okEnv ''sock1'' (JStr ''v=0'') (JStr ''zzz'')
       (call_events okWebhook (connectEvent ''abc123'' (JStr ''a=fingerprint:sha-256 AB'')) initial)) = JStr ''zzz''"
  by (simp add: call_events_connect browser_offer_def Let_def bridge_callId effect_def)

text \<open>
  C7, amended. From a state with no call in progress and no offer stored, a browser offer
  with a non-empty description that carries no call id or the webhook's call id, and a
  \<^verbatim>\<open>connect\<close> webhook with a non-empty call id and a non-empty description, leave the same
  variables and the same effects in either order (only the place of the status 200 in the
  trace differs), and the second event enters the bridge run with both offers stored.
\<close>

theorem offer_order:
  assumes "\<not> callInProgress s" "\<not> truthy (browserOfferSdp s)" "\<not> truthy (whatsappOfferSdp s)"
    and "sdp \<noteq> []" "wsdp \<noteq> []" "cid \<noteq> []"
    and "\<not> truthy callId \<or> callId = JStr cid"
  shows "(call_events wenv (connectEvent cid (JStr wsdp))
            (browser_offer (bridge wenv) sock (JStr sdp) callId s))\<lparr>trace := []\<rparr>
         = (browser_offer (bridge wenv) sock (JStr sdp) callId
            (call_events wenv (connectEvent cid (JStr wsdp)) s))\<lparr>trace := []\<rparr>
       \<and> call_events wenv (connectEvent cid (JStr wsdp))
            (browser_offer (bridge wenv) sock (JStr sdp) callId s)
         = effect (Respond 200) (bridgeRun (bridge wenv) (bothOffers sock sdp cid wsdp s))
       \<and> removeAll (Respond 200) (new_out s (call_events wenv (connectEvent cid (JStr wsdp))
            (browser_offer (bridge wenv) sock (JStr sdp) callId s)))
         = removeAll (Respond 200) (new_out s (browser_offer (bridge wenv) sock (JStr sdp) callId
            (call_events wenv (connectEvent cid (JStr wsdp)) s)))"
proof -
  let ?env = "bridge wenv"
  let ?X = "bothOffers sock sdp cid wsdp s"
  let ?R = "initiateWebRTCBridge ?env ?X"
  have X: "\<not> callInProgress ?X" "truthy (browserOfferSdp ?X)" "truthy (whatsappOfferSdp ?X)"
    "browserSocket ?X \<noteq> None"
    using assms by (simp_all add: bothOffers_def)
  have tX: "trace ?X = trace s" by (simp add: bothOffers_def)
  have A: "call_events wenv (connectEvent cid (JStr wsdp)) (browser_offer ?env sock (JStr sdp) callId s)
      = effect (Respond 200) ?R"
    using first_b[OF assms(3)] second_w[OF assms(6,7)] by simp
  have B: "browser_offer ?env sock (JStr sdp) callId (call_events wenv (connectEvent cid (JStr wsdp)) s)
      = ?R\<lparr>trace := (trace s @ [Respond 200]) @ new_out ?X ?R\<rparr>"
    using first_w[OF assms(2,6)] second_b[OF assms(7,4)] bridge_trace[where env="?env" and t="trace s @ [Respond 200]" and s="?X"]
    by simp
  define xs where "xs = new_out ?X ?R"
  have ext: "trace ?R = trace s @ xs"
    using bridge_extends[of ?env ?X] by (simp add: tX xs_def)
  have run: "?R = bridgeRun ?env ?X" using X by (rule bridge_runs)
  have 1: "(effect (Respond 200) ?R)\<lparr>trace := []\<rparr> = ?R\<lparr>trace := (trace s @ [Respond 200]) @ xs, trace := []\<rparr>"
    by (simp add: effect_def)
  have 2: "new_out s (effect (Respond 200) ?R) = xs @ [Respond 200]"
    using ext by (rule new_out_effect)
  have 3: "new_out s (?R\<lparr>trace := (trace s @ [Respond 200]) @ xs\<rparr>) = Respond 200 # xs"
    using new_out_update[where s=s and r="?R" and xs="Respond 200 # xs"] by simp
  have "(effect (Respond 200) ?R)\<lparr>trace := []\<rparr> = (?R\<lparr>trace := (trace s @ [Respond 200]) @ xs\<rparr>)\<lparr>trace := []\<rparr>"
    using 1 by simp
  moreover have "effect (Respond 200) ?R = effect (Respond 200) (bridgeRun ?env ?X)"
    using run by simp
  moreover have "removeAll (Respond 200) (new_out s (effect (Respond 200) ?R))
      = removeAll (Respond 200) (new_out s (?R\<lparr>trace := (trace s @ [Respond 200]) @ xs\<rparr>))"
    unfolding 2 3 by simp
  ultimately show ?thesis
    unfolding A B xs_def[symmetric] by blast
qed

theorem offer_order_witness:
  "\<not> callInProgress initial \<and> \<not> truthy (browserOfferSdp initial) \<and> \<not> truthy (whatsappOfferSdp initial)
   \<and> (call_events okWebhook (connectEvent ''abc123'' (JStr ''a=fingerprint:sha-256 AB''))
            (browser_offer okEnv ''sock1'' (JStr ''v=0'') JUndef initial))\<lparr>trace := []\<rparr>
         = (browser_offer okEnv ''sock1'' (JStr ''v=0'') JUndef
            (call_events okWebhook (connectEvent ''abc123'' (JStr ''a=fingerprint:sha-256 AB'')) initial))\<lparr>trace := []\<rparr>
   \<and> call_events okWebhook (connectEvent ''abc123'' (JStr ''a=fingerprint:sha-256 AB''))
            (browser_offer okEnv ''sock1'' (JStr ''v=0'') JUndef initial)
         = effect (Respond 200) bridged
   \<and> callInProgress (effect (Respond 200) bridged)"
proof -
  have r: "bothOffers ''sock1'' ''v=0'' ''abc123'' ''a=fingerprint:sha-256 AB'' initial = ready"
    by (simp add: bothOffers_def ready_def initial_def)
  have b: "bridgeRun okEnv ready = bridged"
    using bridge_runs[of ready okEnv] by (simp add: bridged_def ready_def initial_def)
  have e: "bridge okWebhook = okEnv" by (simp add: okWebhook_def)
  have i: "\<not> callInProgress initial" "\<not> truthy (browserOfferSdp initial)" "\<not> truthy (whatsappOfferSdp initial)"
    by (simp_all add: initial_def)
  have c: "callInProgress (effect (Respond 200) bridged)" by (simp add: bridged_eval effect_def)
  have h: "''v=0'' \<noteq> []" "''a=fingerprint:sha-256 AB'' \<noteq> []" "''abc123'' \<noteq> []"
    "\<not> truthy JUndef \<or> JUndef = JStr ''abc123''" by simp_all
  note T = offer_order[of initial "''v=0''" "''a=fingerprint:sha-256 AB''" "''abc123''" JUndef okWebhook "''sock1''",
      OF i h, unfolded r b e]
  from T i c show ?thesis by blast
qed

text \<open>
  C9. When the permission check of a \<^verbatim>\<open>smart-call\<close> request returns no permission
  (status \<^verbatim>\<open>denied\<close>, \<^verbatim>\<open>unknown\<close> or \<^verbatim>\<open>error\<close>), the handler emits \<^verbatim>\<open>permission-needed\<close> to
  the browser, sends a permission request to the target and reports its result, and sends
  no \<^verbatim>\<open>connect\<close> request that places the call. The only \<^verbatim>\<open>connect\<close> request of the run
  is the probe of the permission check itself.
\<close>

theorem smart_call_without_permission:
  assumes "\<not> hasPermission (fst (checkCallPermission cenv (formatNumber phoneNumber) (s\<lparr>browserSocket := Some sock\<rparr>)))"
  shows "\<exists>probe name args.
           new_out s (smart_call cenv sock phoneNumber s) =
             probe @ [Emit sock ''permission-needed'' [JObj [(''phoneNumber'', JStr (formatNumber phoneNumber))]],
                      ApiPermissionRequest (formatNumber phoneNumber),
                      Emit sock name args]
           \<and> (probe = [] \<or> probe = [ApiConnect Probe (formatNumber phoneNumber)])
           \<and> (name = ''permission-request-sent'' \<or> name = ''permission-request-failed'')
           \<and> emitted ''permission-needed'' (new_out s (smart_call cenv sock phoneNumber s))
           \<and> \<not> placed (new_out s (smart_call cenv sock phoneNumber s))"
proof -
  let ?n = "formatNumber phoneNumber"
  let ?s1 = "s\<lparr>browserSocket := Some sock\<rparr>"
  obtain p s2 where cp: "checkCallPermission cenv ?n ?s1 = (p, s2)" by (cases "checkCallPermission cenv ?n ?s1")
  with assms have np: "\<not> hasPermission p" by simp
  let ?s3 = "effect (Emit sock ''permission-needed'' [JObj [(''phoneNumber'', JStr ?n)]]) s2"
  have sc: "smart_call cenv sock phoneNumber s = requestPermission cenv sock ?n ?s3"
    using cp np by (simp add: smart_call_def Let_def)
  from requestPermission_out[of cenv sock ?n ?s3] obtain name args where
    rp: "requestPermission cenv sock ?n ?s3 = ?s3\<lparr>trace := trace ?s3 @ [ApiPermissionRequest ?n, Emit sock name args]\<rparr>"
    and nm: "name = ''permission-request-sent'' \<or> name = ''permission-request-failed''" by blast
  from checkCallPermission_out[OF cp np] have "s2 = ?s1 \<or> s2 = effect (ApiConnect Probe ?n) ?s1" .
  then show ?thesis
  proof
    assume "s2 = ?s1"
    with sc rp nm show ?thesis
      by (intro exI[of _ "[]"] exI[of _ name] exI[of _ args]) (auto simp: new_out_def effect_def)
  next
    assume "s2 = effect (ApiConnect Probe ?n) ?s1"
    with sc rp nm show ?thesis
      by (intro exI[of _ "[ApiConnect Probe ?n]"] exI[of _ name] exI[of _ args]) (auto simp: new_out_def effect_def)
  qed
qed

theorem smart_call_without_permission_witness:
  "\<not> hasPermission (fst (checkCallPermission deniedEnv (formatNumber ''+4915112345'') (initial\<lparr>browserSocket := Some ''sock1''\<rparr>)))
   \<and> emitted ''permission-needed'' (new_out initial (smart_call deniedEnv ''sock1'' ''+4915112345'' initial))
   \<and> ApiPermissionRequest ''4915112345'' \<in> set (new_out initial (smart_call deniedEnv ''sock1'' ''+4915112345'' initial))
   \<and> \<not> placed (new_out initial (smart_call deniedEnv ''sock1'' ''+4915112345'' initial))"
proof -
  have h: "\<not> hasPermission (fst (checkCallPermission deniedEnv (formatNumber ''+4915112345'') (initial\<lparr>browserSocket := Some ''sock1''\<rparr>)))"
    by (simp add: checkCallPermission_def deniedEnv_def Let_def opt_prop_def)
  from smart_call_without_permission[OF h] h show ?thesis by auto
qed

text \<open>
  C10. The webhook handler sends exactly one status for every body, and it is 200: after
  a call event, a permission update, a message status, a message, a body of no known
  shape, and a body that makes the handler throw.
\<close>

theorem webhook_always_200:
  "responses (new_out s (call_events wenv body s)) = [200]"
proof (cases "callEventsTry wenv body s")
  case (Pair c s')
  from callEventsTry_responses[OF Pair] obtain xs where
    xs: "trace s' = trace s @ xs" "responses xs = (if c = Returned then [200] else [])" by blast
  show ?thesis
  proof (cases c)
    case Normal
    with Pair xs show ?thesis by (simp add: call_events_def effect_def new_out_def responses_append)
  next
    case Returned
    with Pair xs show ?thesis by (simp add: call_events_def new_out_def)
  next
    case (Thrown e)
    with Pair xs show ?thesis by (simp add: call_events_def effect_def new_out_def responses_append)
  qed
qed

theorem webhook_always_200_witness:
  "callEventsTry okWebhook throwingBody initial = (Thrown TypeError, initial)
   \<and> responses (new_out initial (call_events okWebhook throwingBody initial)) = [200]
   \<and> responses (new_out initial (call_events okWebhook JUndef initial)) = [200]
   \<and> responses (new_out ready (call_events okWebhook (connectEvent ''abc123'' (JStr ''v=0'')) ready)) = [200]"
  using webhook_always_200[of initial okWebhook throwingBody] webhook_always_200[of initial okWebhook JUndef]
    webhook_always_200[of ready okWebhook "connectEvent ''abc123'' (JStr ''v=0'')"] throwing
  by simp

text \<open>
  C5. The claim asks that the description applied to the provider leg always contains
  \<^verbatim>\<open>a=setup:actpass\<close>. The code inserts the attribute after fingerprint lines only: an offer
  without the attribute and without a fingerprint line is applied unchanged, and the
  provider leg's remote description lacks the attribute.
\<close>

theorem offer_without_fingerprint:
  "\<not> str_includes noFingerprintOffer ''a=setup:actpass''
   \<and> modifiedWhatsappSdp noFingerprintOffer = noFingerprintOffer
   \<and> \<not> str_includes (modifiedWhatsappSdp noFingerprintOffer) ''a=setup:actpass''
   \<and> map_option remoteDescription
         (whatsappPc (initiateWebRTCBridge okEnv (ready\<lparr>whatsappOfferSdp := JStr noFingerprintOffer\<rparr>)))
       = Some (JStr noFingerprintOffer)"
  using noFingerprint_applied
  by (simp add: modifiedWhatsappSdp_def noFingerprintOffer_def crlf_def)

theorem offer_without_fingerprint_witness:
  "noFingerprintOffer \<noteq> []
   \<and> \<not> str_includes (modifiedWhatsappSdp noFingerprintOffer) ''a=setup:actpass''"
proof -
  have "noFingerprintOffer \<noteq> []" by (simp add: noFingerprintOffer_def)
  with offer_without_fingerprint show ?thesis by blast
qed



end
